theory Spec2Isabelle
  imports Complex_Main "HOL-Library.Sublist"
begin

section \<open>JavaScript values\<close>

text \<open>
  The handlers of \<^verbatim>\<open>index.ts\<close> work on untyped JSON (\<^verbatim>\<open>any\<close>, or a cast that is
  erased at run time), so upstream data and tool arguments are values of one type.
  Numbers are exact rationals (rounding to binary64 is not modelled) plus \<open>NaN\<close>.
  \<open>JInherited k\<close> is the member named \<open>k\<close> that every plain object inherits from
  \<^verbatim>\<open>Object.prototype\<close> (a function, or the prototype itself for \<^verbatim>\<open>__proto__\<close>): it is truthy
  and not nullish.
\<close>

datatype jsval =
    JUndefined
  | JNull
  | JBool bool
  | JNum rat
  | JNaN
  | JStr string
  | JArr "jsval list"
  | JObj "(string \<times> jsval) list"
  | JInherited string

text \<open>A thrown value: an \<^verbatim>\<open>Error\<close> instance with its message, or anything else with
  what \<^verbatim>\<open>String(error)\<close> makes of it.\<close>

datatype thrown = ErrorObj string | NonError string

fun error_message :: "thrown \<Rightarrow> string" where
  "error_message (ErrorObj m) = m"
| "error_message (NonError s) = s"

definition TypeError :: "string \<Rightarrow> thrown" where
  "TypeError m = ErrorObj m"

definition andThen :: "thrown + 'a \<Rightarrow> ('a \<Rightarrow> thrown + 'b) \<Rightarrow> thrown + 'b" where
  "andThen m f = (case m of Inl e \<Rightarrow> Inl e | Inr x \<Rightarrow> f x)"

fun traverse :: "('a \<Rightarrow> thrown + 'b) \<Rightarrow> 'a list \<Rightarrow> thrown + 'b list" where
  "traverse f [] = Inr []"
| "traverse f (x # xs) =
     andThen (f x) (\<lambda>y. andThen (traverse f xs) (\<lambda>ys. Inr (y # ys)))"

text \<open>The library functions whose result depends on binary64 arithmetic are parameters:
  \<open>render\<close> is \<^verbatim>\<open>String(v)\<close> on the values not covered by \<open>ToString\<close> below,
  \<open>toNumber\<close> is \<^verbatim>\<open>Number(s)\<close> on a string, and \<open>kmFixed1 v\<close> is
  \<^verbatim>\<open>(v / 1000).toFixed(1)\<close>.\<close>

record runtime =
  render :: "jsval \<Rightarrow> string"
  toNumber :: "string \<Rightarrow> jsval"
  kmFixed1 :: "jsval \<Rightarrow> string"

definition truthy :: "jsval \<Rightarrow> bool" where
  "truthy v = (case v of
       JUndefined \<Rightarrow> False | JNull \<Rightarrow> False | JBool b \<Rightarrow> b
     | JNum r \<Rightarrow> r \<noteq> 0 | JNaN \<Rightarrow> False | JStr s \<Rightarrow> s \<noteq> []
     | JArr _ \<Rightarrow> True | JObj _ \<Rightarrow> True | JInherited _ \<Rightarrow> True)"

definition nullish :: "jsval \<Rightarrow> bool" where
  "nullish v = (v = JUndefined \<or> v = JNull)"

text \<open>\<^verbatim>\<open>a || b\<close> and \<^verbatim>\<open>a ?? b\<close> on values already computed.\<close>

definition js_or :: "jsval \<Rightarrow> jsval \<Rightarrow> jsval" where
  "js_or a b = (if truthy a then a else b)"

definition js_coalesce :: "jsval \<Rightarrow> jsval \<Rightarrow> jsval" where
  "js_coalesce a b = (if nullish a then b else a)"

definition digit_chars :: string where
  "digit_chars = ''0123456789''"

definition is_digit :: "char \<Rightarrow> bool" where
  "is_digit c = (c \<in> set digit_chars)"

definition digit_value :: "char \<Rightarrow> nat" where
  "digit_value c = length (takeWhile (\<lambda>d. d \<noteq> c) digit_chars)"

fun show_nat :: "nat \<Rightarrow> string" where
  "show_nat n =
     (if n < 10 then [digit_chars ! n] else show_nat (n div 10) @ [digit_chars ! (n mod 10)])"

declare show_nat.simps [simp del]

definition is_integral :: "rat \<Rightarrow> bool" where
  "is_integral r = (of_int \<lfloor>r\<rfloor> = r)"

text \<open>\<^verbatim>\<open>String(v)\<close>, also what a template literal and a property key make of \<open>v\<close>.
  An integer below \<open>10^21\<close> prints in plain decimal.\<close>

definition ToString :: "runtime \<Rightarrow> jsval \<Rightarrow> string" where
  "ToString rt v = (case v of
       JStr s \<Rightarrow> s
     | JUndefined \<Rightarrow> ''undefined''
     | JNull \<Rightarrow> ''null''
     | JBool b \<Rightarrow> (if b then ''true'' else ''false'')
     | JNaN \<Rightarrow> ''NaN''
     | JNum r \<Rightarrow>
         (if is_integral r \<and> \<bar>r\<bar> < 10 ^ 21
          then (if r < 0 then ''-'' else []) @ show_nat (nat \<bar>\<lfloor>r\<rfloor>\<bar>)
          else render rt v)
     | _ \<Rightarrow> render rt v)"

subsection \<open>Property access\<close>

definition object_prototype_keys :: "string list" where
  "object_prototype_keys =
     [''constructor'', ''hasOwnProperty'', ''isPrototypeOf'', ''propertyIsEnumerable'',
      ''toLocaleString'', ''toString'', ''valueOf'', ''__proto__'',
      ''__defineGetter__'', ''__defineSetter__'', ''__lookupGetter__'', ''__lookupSetter__'']"

text \<open>\<^verbatim>\<open>obj[k]\<close> on a plain object with the own properties \<open>props\<close>: the own property,
  else what the prototype chain holds, else \<^verbatim>\<open>undefined\<close>.\<close>

definition object_get :: "(string \<times> jsval) list \<Rightarrow> string \<Rightarrow> jsval" where
  "object_get props k = (case map_of props k of
       Some v \<Rightarrow> v
     | None \<Rightarrow> (if k \<in> set object_prototype_keys then JInherited k else JUndefined))"

definition read_error :: "jsval \<Rightarrow> string \<Rightarrow> thrown" where
  "read_error base k = TypeError (''Cannot read properties of ''
     @ (if base = JNull then ''null'' else ''undefined'') @ '' (reading '' @ [CHR 39] @ k @ [CHR 39] @ '')'')"

text \<open>\<^verbatim>\<open>v.k\<close> for a field name \<open>k\<close> of the upstream JSON. On a primitive or an array
  none of the field names the handlers read exists, so the result is \<^verbatim>\<open>undefined\<close>.\<close>

definition member :: "jsval \<Rightarrow> string \<Rightarrow> thrown + jsval" where
  "member v k = (case v of
       JUndefined \<Rightarrow> Inl (read_error v k)
     | JNull \<Rightarrow> Inl (read_error v k)
     | JObj props \<Rightarrow> Inr (object_get props k)
     | _ \<Rightarrow> Inr JUndefined)"

text \<open>\<^verbatim>\<open>v?.k\<close>\<close>

definition opt_member :: "jsval \<Rightarrow> string \<Rightarrow> jsval" where
  "opt_member v k = (case v of JObj props \<Rightarrow> object_get props k | _ \<Rightarrow> JUndefined)"

text \<open>\<^verbatim>\<open>v[0]\<close>\<close>

definition first_element :: "jsval \<Rightarrow> thrown + jsval" where
  "first_element v = (case v of
       JUndefined \<Rightarrow> Inl (read_error v ''0'')
     | JNull \<Rightarrow> Inl (read_error v ''0'')
     | JArr xs \<Rightarrow> Inr (case xs of [] \<Rightarrow> JUndefined | x # _ \<Rightarrow> x)
     | JStr s \<Rightarrow> Inr (case s of [] \<Rightarrow> JUndefined | c # _ \<Rightarrow> JStr [c])
     | JObj props \<Rightarrow> Inr (object_get props ''0'')
     | _ \<Rightarrow> Inr JUndefined)"

definition not_a_function :: "string \<Rightarrow> thrown" where
  "not_a_function what = TypeError (what @ '' is not a function'')"

text \<open>\<^verbatim>\<open>v.map(f)\<close>: only an array has \<^verbatim>\<open>map\<close>.\<close>

definition js_map :: "string \<Rightarrow> (jsval \<Rightarrow> thrown + jsval) \<Rightarrow> jsval \<Rightarrow> thrown + jsval" where
  "js_map what f v = (case v of
       JUndefined \<Rightarrow> Inl (read_error v ''map'')
     | JNull \<Rightarrow> Inl (read_error v ''map'')
     | JArr xs \<Rightarrow> andThen (traverse f xs) (\<lambda>ys. Inr (JArr ys))
     | _ \<Rightarrow> Inl (not_a_function (what @ ''.map'')))"

text \<open>\<^verbatim>\<open>v?.map(f)\<close>\<close>

definition opt_map :: "string \<Rightarrow> (jsval \<Rightarrow> thrown + jsval) \<Rightarrow> jsval \<Rightarrow> thrown + jsval" where
  "opt_map what f v = (if nullish v then Inr JUndefined else js_map (what @ ''?'') f v)"

section \<open>Tool results\<close>

text \<open>The text of a content item is either a literal string or
  \<^verbatim>\<open>JSON.stringify(v, null, 2)\<close>, kept as the value \<open>v\<close> it prints.\<close>

datatype payload = Literal string | Stringify jsval

record content_item =
  ctype :: string
  ctext :: payload

record ToolResult =
  content :: "content_item list"
  isError :: bool

definition failure :: "string \<Rightarrow> ToolResult" where
  "failure msg = \<lparr>content = [\<lparr>ctype = ''text'', ctext = Literal msg\<rparr>], isError = True\<rparr>"

definition success :: "jsval \<Rightarrow> ToolResult" where
  "success v = \<lparr>content = [\<lparr>ctype = ''text'', ctext = Stringify v\<rparr>], isError = False\<rparr>"



section \<open>What the network returns\<close>

text \<open>One call of a handler issues one \<^verbatim>\<open>fetch\<close>. Its outcome is an input of the model:
  the promise rejects, or it yields a response whose \<^verbatim>\<open>json()\<close> and \<^verbatim>\<open>text()\<close> may
  reject in turn.\<close>

record http_response =
  http_status :: int
  statusText :: string
  json_body :: "thrown + jsval"
  text_body :: "thrown + string"

type_synonym fetched = "thrown + http_response"

definition response_ok :: "http_response \<Rightarrow> bool" where
  "response_ok r = (200 \<le> http_status r \<and> http_status r \<le> 299)"

section \<open>Price level\<close>

definition priceLevelMap :: "(string \<times> jsval) list" where
  "priceLevelMap =
     [(''PRICE_LEVEL_FREE'', JNum 0),
      (''PRICE_LEVEL_INEXPENSIVE'', JNum 1),
      (''PRICE_LEVEL_MODERATE'', JNum 2),
      (''PRICE_LEVEL_EXPENSIVE'', JNum 3),
      (''PRICE_LEVEL_VERY_EXPENSIVE'', JNum 4)]"

definition getPriceLevelValue :: "string \<Rightarrow> jsval" where
  "getPriceLevelValue priceLevel = js_coalesce (object_get priceLevelMap priceLevel) (JNum 0)"

section \<open>Geocoding\<close>

definition handleGeocode :: "runtime \<Rightarrow> fetched \<Rightarrow> thrown + ToolResult" where
  "handleGeocode rt fetch =
     andThen fetch (\<lambda>response.
     andThen (json_body response) (\<lambda>data.
     andThen (member data ''status'') (\<lambda>status.
       if status \<noteq> JStr ''OK'' then
         andThen (member data ''error_message'') (\<lambda>error_message.
           Inr (failure (''Geocoding failed: '' @ ToString rt (js_or error_message status))))
       else
         andThen (member data ''results'') (\<lambda>results.
         andThen (first_element results) (\<lambda>r0.
         andThen (member r0 ''geometry'') (\<lambda>geometry.
         andThen (member geometry ''location'') (\<lambda>location.
         andThen (member r0 ''formatted_address'') (\<lambda>formatted_address.
         andThen (member r0 ''place_id'') (\<lambda>place_id.
           Inr (success (JObj
             [(''location'', location),
              (''formatted_address'', formatted_address),
              (''place_id'', place_id)])))))))))))"

definition handleReverseGeocode :: "runtime \<Rightarrow> fetched \<Rightarrow> thrown + ToolResult" where
  "handleReverseGeocode rt fetch =
     andThen fetch (\<lambda>response.
     andThen (json_body response) (\<lambda>data.
     andThen (member data ''status'') (\<lambda>status.
       if status \<noteq> JStr ''OK'' then
         andThen (member data ''error_message'') (\<lambda>error_message.
           Inr (failure (''Reverse geocoding failed: '' @ ToString rt (js_or error_message status))))
       else
         andThen (member data ''results'') (\<lambda>results.
         andThen (first_element results) (\<lambda>r0.
         andThen (member r0 ''formatted_address'') (\<lambda>formatted_address.
         andThen (member r0 ''place_id'') (\<lambda>place_id.
         andThen (member r0 ''address_components'') (\<lambda>address_components.
           Inr (success (JObj
             [(''formatted_address'', formatted_address),
              (''place_id'', place_id),
              (''address_components'', address_components)]))))))))))"


section \<open>Strings\<close>

text \<open>A string is a list of 8-bit characters: the code units a JavaScript string holds
  above 255 cannot be written in the model.\<close>

text \<open>\<^verbatim>\<open>s.replace(pat, rep)\<close> with a string pattern: the first occurrence only.\<close>

fun replace_first :: "string \<Rightarrow> string \<Rightarrow> string \<Rightarrow> string" where
  "replace_first pat rep [] = (if pat = [] then rep else [])"
| "replace_first pat rep (c # cs) =
     (if prefix pat (c # cs) then rep @ drop (length pat) (c # cs)
      else c # replace_first pat rep cs)"

definition is_line_terminator :: "char \<Rightarrow> bool" where
  "is_line_terminator c = (c = CHR 0x0A \<or> c = CHR 0x0D)"

text \<open>\<^verbatim>\<open>s.replace(/\/photos\/.*/, '')\<close>: the first \<^verbatim>\<open>/photos/\<close> and everything after it
  up to the next line terminator is removed.\<close>

fun remove_photos_tail :: "string \<Rightarrow> string" where
  "remove_photos_tail [] = []"
| "remove_photos_tail (c # cs) =
     (if prefix ''/photos/'' (c # cs)
      then dropWhile (\<lambda>x. \<not> is_line_terminator x) (drop 8 (c # cs))
      else c # remove_photos_tail cs)"

text \<open>\<^verbatim>\<open>v.replace(pat, '')\<close> on a value: only a string has \<^verbatim>\<open>replace\<close>.\<close>

definition js_replace :: "string \<Rightarrow> (string \<Rightarrow> string) \<Rightarrow> jsval \<Rightarrow> thrown + jsval" where
  "js_replace what f v = (case v of
       JUndefined \<Rightarrow> Inl (read_error v ''replace'')
     | JNull \<Rightarrow> Inl (read_error v ''replace'')
     | JStr s \<Rightarrow> Inr (JStr (f s))
     | _ \<Rightarrow> Inl (not_a_function (what @ ''.replace'')))"

text \<open>The white space \<^verbatim>\<open>\s\<close> matches and \<^verbatim>\<open>parseInt\<close> skips, among the 8-bit characters.\<close>

definition space_chars :: string where
  "space_chars = [CHR 0x09, CHR 0x0A, CHR 0x0B, CHR 0x0C, CHR 0x0D, CHR 0x20, CHR 0xA0]"

definition is_space :: "char \<Rightarrow> bool" where
  "is_space c = (c \<in> set space_chars)"

definition hex_chars :: string where
  "hex_chars = ''0123456789abcdef''"

definition hex_value :: "char \<Rightarrow> nat option" where
  "hex_value c =
     (if c \<in> set hex_chars then Some (length (takeWhile (\<lambda>d. d \<noteq> c) hex_chars))
      else if c \<in> set ''ABCDEF'' then Some (10 + length (takeWhile (\<lambda>d. d \<noteq> c) ''ABCDEF''))
      else None)"

definition radix_digit :: "nat \<Rightarrow> char \<Rightarrow> bool" where
  "radix_digit radix c = (case hex_value c of None \<Rightarrow> False | Some d \<Rightarrow> d < radix)"

definition digits_value :: "nat \<Rightarrow> string \<Rightarrow> nat" where
  "digits_value radix ds = foldl (\<lambda>n c. radix * n + the (hex_value c)) 0 ds"

text \<open>\<^verbatim>\<open>parseInt(s)\<close> with no radix: leading white space, a sign, \<^verbatim>\<open>0x\<close> for base 16,
  then the longest run of digits; \<open>NaN\<close> when that run is empty.\<close>

definition parseInt :: "string \<Rightarrow> jsval" where
  "parseInt s =
     (let t = dropWhile is_space s;
          negative = (take 1 t = ''-'');
          u = (if take 1 t = ''-'' \<or> take 1 t = ''+'' then drop 1 t else t);
          hex = (take 2 u = ''0x'' \<or> take 2 u = ''0X'');
          radix = (if hex then 16 else 10);
          ds = takeWhile (radix_digit radix) (if hex then drop 2 u else u)
      in if ds = [] then JNaN
         else JNum ((if negative then - 1 else 1) * of_nat (digits_value radix ds)))"

text \<open>\<^verbatim>\<open>s.split(',')\<close>\<close>

fun split_on :: "char \<Rightarrow> string \<Rightarrow> string list" where
  "split_on sep [] = [[]]"
| "split_on sep (c # cs) =
     (if c = sep then [] # split_on sep cs
      else (case split_on sep cs of [] \<Rightarrow> [[c]] | p # ps \<Rightarrow> (c # p) # ps))"

text \<open>\<^verbatim>\<open>s.padStart(2, '0')\<close>\<close>

definition padStart2 :: "string \<Rightarrow> string" where
  "padStart2 s = replicate (2 - length s) (CHR ''0'') @ s"

section \<open>Regular expressions\<close>

text \<open>The regular expressions of the source use character classes, sequence, alternative,
  \<^verbatim>\<open>?\<close>, \<^verbatim>\<open>*\<close> and \<^verbatim>\<open>+\<close>, between \<^verbatim>\<open>^\<close> and \<^verbatim>\<open>$\<close> and without flags:
  \<^verbatim>\<open>test\<close> succeeds exactly when the whole string is a word of the expression.
  The matcher takes derivatives character by character.\<close>

datatype rx =
    Never
  | Empty
  | Cls "char list"
  | Seq rx rx
  | Alt rx rx
  | Opt rx
  | Star rx
  | Plus rx

fun nullable :: "rx \<Rightarrow> bool" where
  "nullable Never = False"
| "nullable Empty = True"
| "nullable (Cls cs) = False"
| "nullable (Seq r s) = (nullable r \<and> nullable s)"
| "nullable (Alt r s) = (nullable r \<or> nullable s)"
| "nullable (Opt r) = True"
| "nullable (Star r) = True"
| "nullable (Plus r) = nullable r"

fun deriv :: "char \<Rightarrow> rx \<Rightarrow> rx" where
  "deriv c Never = Never"
| "deriv c Empty = Never"
| "deriv c (Cls cs) = (if c \<in> set cs then Empty else Never)"
| "deriv c (Seq r s) =
     (if nullable r then Alt (Seq (deriv c r) s) (deriv c s) else Seq (deriv c r) s)"
| "deriv c (Alt r s) = Alt (deriv c r) (deriv c s)"
| "deriv c (Opt r) = deriv c r"
| "deriv c (Star r) = Seq (deriv c r) (Star r)"
| "deriv c (Plus r) = Seq (deriv c r) (Star r)"

fun regex_test :: "rx \<Rightarrow> string \<Rightarrow> bool" where
  "regex_test r [] = nullable r"
| "regex_test r (c # cs) = regex_test (deriv c r) cs"

definition digit :: rx where
  "digit = Cls digit_chars"

definition fraction :: "rx \<Rightarrow> rx" where
  "fraction d = Opt (Seq (Cls ''.'') (Plus d))"

text \<open>\<^verbatim>\<open>[1-8]?\d(\.\d+)?|90(\.0+)?\<close>\<close>

definition latitude_rx :: rx where
  "latitude_rx =
     Alt (Seq (Opt (Cls ''12345678'')) (Seq digit (fraction digit)))
         (Seq (Cls ''9'') (Seq (Cls ''0'') (fraction (Cls ''0''))))"

text \<open>\<^verbatim>\<open>180(\.0+)?|((1[0-7]\d)|([1-9]?\d))(\.\d+)?\<close>\<close>

definition longitude_rx :: rx where
  "longitude_rx =
     Alt (Seq (Cls ''1'') (Seq (Cls ''8'') (Seq (Cls ''0'') (fraction (Cls ''0'')))))
         (Seq (Alt (Seq (Cls ''1'') (Seq (Cls ''01234567'') digit))
                   (Seq (Opt (Cls ''123456789'')) digit))
              (fraction digit))"

text \<open>\<^verbatim>\<open>/^[-+]?([1-8]?\d(\.\d+)?|90(\.0+)?),\s*[-+]?(180(\.0+)?|((1[0-7]\d)|([1-9]?\d))(\.\d+)?)$/\<close>\<close>

definition coordRegex :: rx where
  "coordRegex =
     Seq (Opt (Cls ''-+''))
    (Seq latitude_rx
    (Seq (Cls '','')
    (Seq (Star (Cls space_chars))
    (Seq (Opt (Cls ''-+''))
         longitude_rx))))"


section \<open>Place search\<close>

definition search_place_entry :: "jsval \<Rightarrow> thrown + jsval" where
  "search_place_entry place =
     andThen (member place ''displayName'') (\<lambda>displayName.
     andThen (member place ''formattedAddress'') (\<lambda>formattedAddress.
     andThen (member place ''location'') (\<lambda>location.
     andThen (member place ''id'') (\<lambda>id.
     andThen (member place ''rating'') (\<lambda>rating.
     andThen (member place ''types'') (\<lambda>types.
       Inr (JObj
         [(''name'', opt_member displayName ''text''),
          (''formatted_address'', formattedAddress),
          (''location'', JObj
             [(''lat'', opt_member location ''latitude''),
              (''lng'', opt_member location ''longitude'')]),
          (''place_id'', id),
          (''rating'', rating),
          (''types'', types)])))))))"

definition handlePlaceSearch :: "runtime \<Rightarrow> fetched \<Rightarrow> thrown + ToolResult" where
  "handlePlaceSearch rt fetch =
     andThen fetch (\<lambda>response.
     andThen (json_body response) (\<lambda>data.
     andThen (member data ''places'') (\<lambda>places.
       if \<not> truthy places then
         Inr (failure (''Place search failed: '' @ ToString rt
           (js_or (opt_member (opt_member data ''error'') ''message'') (JStr ''Unknown error''))))
       else
         andThen (js_map ''data.places'' search_place_entry places) (\<lambda>entries.
           Inr (success (JObj [(''places'', entries)]))))))"

section \<open>Place details\<close>

definition location_of :: "jsval \<Rightarrow> jsval" where
  "location_of location =
     (if truthy location
      then JObj [(''lat'', opt_member location ''latitude''),
                 (''lng'', opt_member location ''longitude'')]
      else JNull)"

definition viewport_of :: "jsval \<Rightarrow> thrown + jsval" where
  "viewport_of viewport =
     (if truthy viewport then
        andThen (member (opt_member viewport ''high'') ''latitude'') (\<lambda>high_lat.
        andThen (member (opt_member viewport ''high'') ''longitude'') (\<lambda>high_lng.
        andThen (member (opt_member viewport ''low'') ''latitude'') (\<lambda>low_lat.
        andThen (member (opt_member viewport ''low'') ''longitude'') (\<lambda>low_lng.
          Inr (JObj
            [(''northeast'', JObj [(''lat'', high_lat), (''lng'', high_lng)]),
             (''southwest'', JObj [(''lat'', low_lat), (''lng'', low_lng)])])))))
      else Inr JNull)"

definition plus_code_of :: "jsval \<Rightarrow> jsval" where
  "plus_code_of plusCode =
     (if truthy plusCode
      then JObj [(''global_code'', opt_member plusCode ''globalCode''),
                 (''compound_code'', opt_member plusCode ''compoundCode'')]
      else JNull)"

definition price_level_of :: "runtime \<Rightarrow> jsval \<Rightarrow> jsval" where
  "price_level_of rt priceLevel =
     (if truthy priceLevel then getPriceLevelValue (ToString rt priceLevel) else JNum 0)"

definition hhmm :: "runtime \<Rightarrow> jsval \<Rightarrow> string" where
  "hhmm rt t = padStart2 (ToString rt (opt_member t ''hour''))
             @ padStart2 (ToString rt (opt_member t ''minute''))"

definition period_of :: "runtime \<Rightarrow> jsval \<Rightarrow> thrown + jsval" where
  "period_of rt period =
     andThen (member period ''open'') (\<lambda>opens.
     andThen (member period ''close'') (\<lambda>closes.
       Inr (JObj
         [(''open'', JObj [(''day'', opt_member opens ''day''), (''time'', JStr (hhmm rt opens))]),
          (''close'',
             if truthy closes
             then JObj [(''day'', opt_member closes ''day''), (''time'', JStr (hhmm rt closes))]
             else JNull)])))"

definition opening_hours_of :: "runtime \<Rightarrow> jsval \<Rightarrow> thrown + jsval" where
  "opening_hours_of rt hours =
     (if truthy hours then
        andThen (opt_map ''placeData.regularOpeningHours.periods'' (period_of rt)
                   (opt_member hours ''periods'')) (\<lambda>periods.
          Inr (JObj
            [(''open_now'', opt_member hours ''openNow''),
             (''weekday_text'', opt_member hours ''weekdayDescriptions''),
             (''periods'', js_or periods (JArr []))]))
      else Inr JNull)"

definition current_opening_hours_of :: "jsval \<Rightarrow> jsval" where
  "current_opening_hours_of hours =
     (if truthy hours
      then JObj [(''open_now'', opt_member hours ''openNow''),
                 (''weekday_text'', opt_member hours ''weekdayDescriptions'')]
      else JNull)"

definition review_of :: "jsval \<Rightarrow> thrown + jsval" where
  "review_of review =
     andThen (member review ''authorAttribution'') (\<lambda>author.
       Inr (JObj
         [(''author_name'', js_or (opt_member author ''displayName'') (JStr [])),
          (''author_url'', js_or (opt_member author ''uri'') (JStr [])),
          (''profile_photo_url'', js_or (opt_member author ''photoUri'') (JStr [])),
          (''rating'', js_or (opt_member review ''rating'') (JNum 0)),
          (''relative_time_description'',
             js_or (opt_member review ''relativePublishTimeDescription'') (JStr [])),
          (''text'', js_or (opt_member (opt_member review ''text'') ''text'') (JStr [])),
          (''time'', js_or (opt_member review ''publishTime'') (JStr [])),
          (''google_maps_uri'', js_or (opt_member review ''googleMapsUri'') (JStr []))]))"

definition attribution_of :: "runtime \<Rightarrow> jsval \<Rightarrow> thrown + jsval" where
  "attribution_of rt attr =
     andThen (member attr ''uri'') (\<lambda>uri.
     andThen (member attr ''displayName'') (\<lambda>displayName.
       Inr (JStr (''<a href='' @ [CHR 34] @ ToString rt uri @ [CHR 34] @ ''>''
                  @ ToString rt displayName @ ''</a>''))))"

text \<open>\<^verbatim>\<open>photo.name.replace('places/', '').replace(/\/photos\/.*/, '')\<close>\<close>

definition photo_reference :: "string \<Rightarrow> string" where
  "photo_reference name = remove_photos_tail (replace_first ''places/'' [] name)"

definition photo_of :: "runtime \<Rightarrow> jsval \<Rightarrow> thrown + jsval" where
  "photo_of rt photo =
     andThen (member photo ''name'') (\<lambda>name.
     andThen (js_replace ''photo.name'' photo_reference name) (\<lambda>reference.
     andThen (opt_map ''photo.authorAttributions'' (attribution_of rt)
                (opt_member photo ''authorAttributions'')) (\<lambda>attributions.
       Inr (JObj
         [(''photo_reference'', reference),
          (''height'', opt_member photo ''heightPx''),
          (''width'', opt_member photo ''widthPx''),
          (''html_attributions'', js_or attributions (JArr []))]))))"

definition payment_options_of :: "jsval \<Rightarrow> jsval" where
  "payment_options_of po =
     (if truthy po
      then JObj
        [(''accepts_credit_cards'', js_or (opt_member po ''acceptsCreditCards'') (JBool False)),
         (''accepts_debit_cards'', js_or (opt_member po ''acceptsDebitCards'') (JBool False)),
         (''accepts_cash_only'', js_or (opt_member po ''acceptsCashOnly'') (JBool False)),
         (''accepts_nfc'', js_or (opt_member po ''acceptsNfc'') (JBool False))]
      else JObj [])"

definition accessibility_options_of :: "jsval \<Rightarrow> jsval" where
  "accessibility_options_of ao =
     (if truthy ao
      then JObj
        [(''wheelchair_accessible_entrance'',
            js_or (opt_member ao ''wheelchairAccessibleEntrance'') (JBool False)),
         (''wheelchair_accessible_parking'',
            js_or (opt_member ao ''wheelchairAccessibleParking'') (JBool False)),
         (''wheelchair_accessible_restroom'',
            js_or (opt_member ao ''wheelchairAccessibleRestroom'') (JBool False)),
         (''wheelchair_accessible_seating'',
            js_or (opt_member ao ''wheelchairAccessibleSeating'') (JBool False))]
      else JObj [])"

text \<open>The object \<^verbatim>\<open>formattedData\<close>. Its first read, \<^verbatim>\<open>placeData.displayName\<close>, throws when
  the response body is \<^verbatim>\<open>null\<close>; after it \<^verbatim>\<open>placeData\<close> is not nullish and reading one
  of its fields cannot throw (lemma \<open>member_opt_member\<close>).\<close>

definition formattedData :: "runtime \<Rightarrow> jsval \<Rightarrow> thrown + jsval" where
  "formattedData rt placeData =
     andThen (member placeData ''displayName'') (\<lambda>displayName.
     andThen (viewport_of (opt_member placeData ''viewport'')) (\<lambda>viewport.
     andThen (opening_hours_of rt (opt_member placeData ''regularOpeningHours'')) (\<lambda>opening_hours.
     andThen (opt_map ''placeData.reviews'' review_of (opt_member placeData ''reviews'')) (\<lambda>reviews.
     andThen (opt_map ''placeData.photos'' (photo_of rt) (opt_member placeData ''photos'')) (\<lambda>photos.
       Inr (JObj
         [(''name'', js_or (opt_member displayName ''text'') (JStr [])),
          (''place_id'', opt_member placeData ''id''),
          (''formatted_address'', js_or (opt_member placeData ''formattedAddress'') (JStr [])),
          (''formatted_phone_number'',
             js_or (opt_member placeData ''nationalPhoneNumber'') (JStr [])),
          (''international_phone_number'',
             js_or (opt_member placeData ''internationalPhoneNumber'') (JStr [])),
          (''website'', js_or (opt_member placeData ''websiteUri'') (JStr [])),
          (''rating'', js_or (opt_member placeData ''rating'') (JNum 0)),
          (''user_ratings_total'', js_or (opt_member placeData ''userRatingCount'') (JNum 0)),
          (''url'', js_or (opt_member placeData ''googleMapsUri'') (JStr [])),
          (''address_components'', js_or (opt_member placeData ''addressComponents'') (JArr [])),
          (''geometry'', JObj
             [(''location'', location_of (opt_member placeData ''location'')),
              (''viewport'', viewport)]),
          (''types'', js_or (opt_member placeData ''types'') (JArr [])),
          (''primary_type'', js_or (opt_member placeData ''primaryType'') (JStr [])),
          (''editorial_summary'',
             js_or (opt_member (opt_member placeData ''editorialSummary'') ''text'') (JStr [])),
          (''icon'', js_or (opt_member placeData ''iconMaskBaseUri'') (JStr [])),
          (''icon_background_color'',
             js_or (opt_member placeData ''iconBackgroundColor'') (JStr [])),
          (''plus_code'', plus_code_of (opt_member placeData ''plusCode'')),
          (''business_status'', js_or (opt_member placeData ''businessStatus'') (JStr [])),
          (''price_level'', price_level_of rt (opt_member placeData ''priceLevel'')),
          (''opening_hours'', opening_hours),
          (''current_opening_hours'',
             current_opening_hours_of (opt_member placeData ''currentOpeningHours'')),
          (''reviews'', js_or reviews (JArr [])),
          (''photos'', js_or photos (JArr [])),
          (''dine_in'', js_or (opt_member placeData ''dineIn'') (JBool False)),
          (''takeout'', js_or (opt_member placeData ''takeout'') (JBool False)),
          (''delivery'', js_or (opt_member placeData ''delivery'') (JBool False)),
          (''reservable'', js_or (opt_member placeData ''reservable'') (JBool False)),
          (''serves_breakfast'', js_or (opt_member placeData ''servesBreakfast'') (JBool False)),
          (''serves_lunch'', js_or (opt_member placeData ''servesLunch'') (JBool False)),
          (''serves_dinner'', js_or (opt_member placeData ''servesDinner'') (JBool False)),
          (''serves_brunch'', js_or (opt_member placeData ''servesBrunch'') (JBool False)),
          (''payment_options'', payment_options_of (opt_member placeData ''paymentOptions'')),
          (''accessibility_options'',
             accessibility_options_of (opt_member placeData ''accessibilityOptions''))]))))))"

definition handlePlaceDetails :: "runtime \<Rightarrow> fetched \<Rightarrow> thrown + ToolResult" where
  "handlePlaceDetails rt fetch =
     (case
        andThen fetch (\<lambda>response.
          if \<not> response_ok response then
            (let errorDetails =
               (case text_body response of
                  Inl e \<Rightarrow> ''Could not read error details''
                | Inr errorText \<Rightarrow> take 200 errorText)
             in Inr (failure (''Place details request failed: HTTP ''
                  @ ToString rt (JNum (of_int (http_status response))) @ '' - ''
                  @ statusText response @ [CHR 0x0A] @ ''Details: '' @ errorDetails)))
          else
            andThen (json_body response) (\<lambda>placeData.
            andThen (formattedData rt placeData) (\<lambda>fd.
              Inr (success fd))))
      of
        Inl error \<Rightarrow>
          Inr (failure (''Place details request failed: '' @ error_message error))
      | Inr result \<Rightarrow> Inr result)"


section \<open>Routes: travel mode and waypoints\<close>

definition travelModeMap :: "(string \<times> jsval) list" where
  "travelModeMap =
     [(''driving'', JStr ''DRIVE''),
      (''walking'', JStr ''WALK''),
      (''bicycling'', JStr ''BICYCLE''),
      (''transit'', JStr ''TRANSIT''),
      (''two_wheeler'', JStr ''TWO_WHEELER'')]"

text \<open>The parameter default \<^verbatim>\<open>mode = "driving"\<close> applies to \<^verbatim>\<open>undefined\<close> only; then
  \<^verbatim>\<open>travelModeMap[mode] || "DRIVE"\<close>.\<close>

definition googleTravelMode :: "runtime \<Rightarrow> jsval \<Rightarrow> jsval" where
  "googleTravelMode rt mode =
     (let mode' = (if mode = JUndefined then JStr ''driving'' else mode)
      in js_or (object_get travelModeMap (ToString rt mode')) (JStr ''DRIVE''))"

text \<open>\<^verbatim>\<open>requestBody.routingPreference = "TRAFFIC_AWARE"\<close> for DRIVE and TWO_WHEELER only.\<close>

definition with_routing_preference :: "jsval \<Rightarrow> (string \<times> jsval) list \<Rightarrow> (string \<times> jsval) list" where
  "with_routing_preference travelMode requestBody =
     (if travelMode = JStr ''DRIVE'' \<or> travelMode = JStr ''TWO_WHEELER''
      then requestBody @ [(''routingPreference'', JStr ''TRAFFIC_AWARE'')]
      else requestBody)"

text \<open>\<^verbatim>\<open>const [lat, lng] = origin.split(',').map(Number)\<close>, then the location object.\<close>

definition latLng :: "runtime \<Rightarrow> string \<Rightarrow> jsval" where
  "latLng rt s =
     (let parts = map (toNumber rt) (split_on (CHR '','') s);
          lat = (if 0 < length parts then parts ! 0 else JUndefined);
          lng = (if 1 < length parts then parts ! 1 else JUndefined)
      in JObj [(''location'', JObj [(''latLng'', JObj [(''latitude'', lat), (''longitude'', lng)])])])"

text \<open>One origin or destination: \<^verbatim>\<open>coordRegex.test\<close> reads its argument as a string;
  \<^verbatim>\<open>split\<close> exists on a string only. \<open>what\<close> is the name of the variable in the source,
  \<^verbatim>\<open>origin\<close> or \<^verbatim>\<open>destination\<close>.\<close>

definition route_waypoint :: "runtime \<Rightarrow> string \<Rightarrow> jsval \<Rightarrow> thrown + jsval" where
  "route_waypoint rt what origin =
     (if regex_test coordRegex (ToString rt origin) then
        (case origin of
           JStr s \<Rightarrow> Inr (latLng rt s)
         | _ \<Rightarrow> Inl (not_a_function (what @ ''.split'')))
      else Inr (JObj [(''address'', origin)]))"

section \<open>Distance matrix\<close>

definition matrix_waypoint :: "runtime \<Rightarrow> string \<Rightarrow> jsval \<Rightarrow> thrown + jsval" where
  "matrix_waypoint rt what origin =
     andThen (route_waypoint rt what origin) (\<lambda>w. Inr (JObj [(''waypoint'', w)]))"

definition distanceMatrixRequest :: "runtime \<Rightarrow> jsval \<Rightarrow> jsval \<Rightarrow> jsval \<Rightarrow> thrown + jsval" where
  "distanceMatrixRequest rt origins destinations mode =
     andThen (js_map ''origins'' (matrix_waypoint rt ''origin'') origins) (\<lambda>originInputs.
     andThen (js_map ''destinations'' (matrix_waypoint rt ''destination'') destinations)
       (\<lambda>destinationInputs.
       Inr (JObj (with_routing_preference (googleTravelMode rt mode)
         [(''origins'', originInputs),
          (''destinations'', destinationInputs),
          (''travelMode'', googleTravelMode rt mode)]))))"

text \<open>The element built for one item of the upstream list (lines 860 to 870).\<close>

definition matrix_element :: "runtime \<Rightarrow> jsval \<Rightarrow> thrown + jsval" where
  "matrix_element rt item =
     (let status = opt_member item ''status'';
          duration = opt_member item ''duration'';
          distanceMeters = opt_member item ''distanceMeters''
      in
        andThen (if truthy duration
                 then js_replace ''item.duration'' (replace_first ''s'' []) duration
                 else Inr (JStr ''Unknown'')) (\<lambda>duration_text.
        andThen (if truthy distanceMeters
                 then andThen (js_replace ''item.duration'' (replace_first ''s'' []) duration)
                        (\<lambda>d. Inr (parseInt (ToString rt d)))
                 else Inr (JNum 0)) (\<lambda>duration_value.
          Inr (JObj
            [(''status'', js_or status (JStr ''OK'')),
             (''duration'', JObj [(''text'', duration_text), (''value'', duration_value)]),
             (''distance'', JObj
                [(''text'', if truthy distanceMeters
                            then JStr (kmFixed1 rt distanceMeters @ '' km'')
                            else JStr ''Unknown''),
                 (''value'', distanceMeters)])]))))"

text \<open>Which element of an array a property key names, if any: the canonical decimal
  numerals below \<open>2^32 - 1\<close>.\<close>

definition index_of_key :: "string \<Rightarrow> nat option" where
  "index_of_key s =
     (if s \<noteq> [] \<and> list_all is_digit s \<and> (s = ''0'' \<or> hd s \<noteq> CHR ''0'')
         \<and> digits_value 10 s < 4294967295
      then Some (digits_value 10 s) else None)"

definition array_index :: "runtime \<Rightarrow> jsval \<Rightarrow> nat option" where
  "array_index rt v = (case v of
       JNum r \<Rightarrow> (if is_integral r \<and> 0 \<le> r \<and> r < 4294967295 then Some (nat \<lfloor>r\<rfloor>) else None)
     | JStr s \<Rightarrow> index_of_key s
     | _ \<Rightarrow> index_of_key (ToString rt v))"

text \<open>\<^verbatim>\<open>elements[destIdx] = element\<close>: an index past the end extends the array, the
  key \<^verbatim>\<open>length\<close> is refused, any other key becomes a property that is not printed.\<close>

definition array_store :: "runtime \<Rightarrow> jsval list \<Rightarrow> jsval \<Rightarrow> jsval \<Rightarrow> thrown + jsval list" where
  "array_store rt elements destIdx element =
     (case array_index rt destIdx of
        Some j \<Rightarrow>
          Inr (if j < length elements then elements[j := element]
               else elements @ replicate (j - length elements) JNull @ [element])
      | None \<Rightarrow>
          (if ToString rt destIdx = ''length'' then Inl (ErrorObj ''Invalid array length'')
           else Inr elements))"

text \<open>The body of \<^verbatim>\<open>data.forEach\<close>; the matrix is the list of the rows' \<^verbatim>\<open>elements\<close>.
  \<^verbatim>\<open>resultMatrix[originIdx]\<close> is a row only for an index below the number of rows; for
  any other key the statement throws a \<^verbatim>\<open>TypeError\<close> before the element is built (the
  model gives all of them the message of the commonest case).\<close>

definition matrix_step :: "runtime \<Rightarrow> jsval list list \<Rightarrow> jsval \<Rightarrow> thrown + jsval list list" where
  "matrix_step rt resultMatrix item =
     andThen (member item ''originIndex'') (\<lambda>originIdx.
     andThen (member item ''destinationIndex'') (\<lambda>destIdx.
       (case array_index rt originIdx of
          None \<Rightarrow> Inl (read_error JUndefined ''elements'')
        | Some i \<Rightarrow>
            if i < length resultMatrix then
              andThen (matrix_element rt item) (\<lambda>element.
              andThen (array_store rt (resultMatrix ! i) destIdx element) (\<lambda>elements.
                Inr (resultMatrix[i := elements])))
            else Inl (read_error JUndefined ''elements''))))"

fun forEach :: "('s \<Rightarrow> 'a \<Rightarrow> thrown + 's) \<Rightarrow> 's \<Rightarrow> 'a list \<Rightarrow> thrown + 's" where
  "forEach f s [] = Inr s"
| "forEach f s (x # xs) = andThen (f s x) (\<lambda>s'. forEach f s' xs)"

text \<open>Lines 851 to 871: \<open>n\<close> rows of \<open>m\<close> \<^verbatim>\<open>null\<close>s, then one step per item.\<close>

definition reassemble :: "runtime \<Rightarrow> nat \<Rightarrow> nat \<Rightarrow> jsval list \<Rightarrow> thrown + jsval list list" where
  "reassemble rt n m items = forEach (matrix_step rt) (replicate n (replicate m JNull)) items"

definition js_length :: "jsval \<Rightarrow> nat" where
  "js_length v = (case v of JArr xs \<Rightarrow> length xs | _ \<Rightarrow> 0)"

definition handleDistanceMatrix ::
  "runtime \<Rightarrow> jsval \<Rightarrow> jsval \<Rightarrow> jsval \<Rightarrow> fetched \<Rightarrow> thrown + ToolResult" where
  "handleDistanceMatrix rt origins destinations mode fetch =
     andThen (distanceMatrixRequest rt origins destinations mode) (\<lambda>requestBody.
     andThen fetch (\<lambda>response.
     andThen (json_body response) (\<lambda>data.
     andThen (if http_status response \<noteq> 200 then Inr True
              else andThen (first_element data) (\<lambda>d0.
                     Inr (truthy d0 \<and> truthy (opt_member d0 ''error'')))) (\<lambda>failed.
       if failed then
         andThen (first_element data) (\<lambda>d0.
           Inr (failure (''Distance matrix request failed: '' @ ToString rt
             (js_or (js_or (opt_member (opt_member d0 ''error'') ''message'')
                           (JStr (statusText response)))
                    (JStr ''Unknown error'')))))
       else
         (case data of
            JArr items \<Rightarrow>
              andThen (reassemble rt (js_length origins) (js_length destinations) items) (\<lambda>rows.
                Inr (success (JObj
                  [(''origin_addresses'', origins),
                   (''destination_addresses'', destinations),
                   (''rows'', JArr (map (\<lambda>elements. JObj [(''elements'', JArr elements)]) rows))])))
          | _ \<Rightarrow> Inl (not_a_function ''data.forEach''))))))"

section \<open>Elevation\<close>

definition elevation_location :: "runtime \<Rightarrow> jsval \<Rightarrow> thrown + jsval" where
  "elevation_location rt loc =
     andThen (member loc ''latitude'') (\<lambda>latitude.
     andThen (member loc ''longitude'') (\<lambda>longitude.
       Inr (JStr (ToString rt latitude @ '','' @ ToString rt longitude))))"

definition elevation_result :: "jsval \<Rightarrow> thrown + jsval" where
  "elevation_result result =
     andThen (member result ''elevation'') (\<lambda>elevation.
     andThen (member result ''location'') (\<lambda>location.
     andThen (member result ''resolution'') (\<lambda>resolution.
       Inr (JObj
         [(''elevation'', elevation),
          (''location'', location),
          (''resolution'', resolution)]))))"

definition handleElevation :: "runtime \<Rightarrow> jsval \<Rightarrow> fetched \<Rightarrow> thrown + ToolResult" where
  "handleElevation rt locations fetch =
     andThen (js_map ''locations'' (elevation_location rt) locations) (\<lambda>locationStrings.
     andThen fetch (\<lambda>response.
     andThen (json_body response) (\<lambda>data.
     andThen (member data ''status'') (\<lambda>status.
       if status \<noteq> JStr ''OK'' then
         andThen (member data ''error_message'') (\<lambda>error_message.
           Inr (failure (''Elevation request failed: '' @ ToString rt (js_or error_message status))))
       else
         andThen (member data ''results'') (\<lambda>results.
         andThen (js_map ''data.results'' elevation_result results) (\<lambda>entries.
           Inr (success (JObj [(''results'', entries)]))))))))"

section \<open>Directions\<close>

definition directionsRequest :: "runtime \<Rightarrow> jsval \<Rightarrow> jsval \<Rightarrow> jsval \<Rightarrow> thrown + jsval" where
  "directionsRequest rt origin destination mode =
     andThen (route_waypoint rt ''origin'' origin) (\<lambda>originInput.
     andThen (route_waypoint rt ''destination'' destination) (\<lambda>destinationInput.
       Inr (JObj (with_routing_preference (googleTravelMode rt mode)
         [(''origin'', originInput),
          (''destination'', destinationInput),
          (''travelMode'', googleTravelMode rt mode),
          (''computeAlternativeRoutes'', JBool False),
          (''routeModifiers'', JObj
             [(''avoidTolls'', JBool False),
              (''avoidHighways'', JBool False),
              (''avoidFerries'', JBool False)]),
          (''languageCode'', JStr ''en-US'')]))))"

definition distance_of :: "runtime \<Rightarrow> jsval \<Rightarrow> jsval" where
  "distance_of rt distanceMeters =
     JObj [(''text'', if truthy distanceMeters
                      then JStr (kmFixed1 rt distanceMeters @ '' km'')
                      else JStr ''Unknown distance''),
           (''value'', distanceMeters)]"

text \<open>\<^verbatim>\<open>{text: a ? a.replace('s', '') : 'Unknown duration',
   value: b ? parseInt(b.replace('s', '')) : 0}\<close>, where \<open>what_a\<close> and \<open>what_b\<close> are the
  expressions \<open>a\<close> and \<open>b\<close> as the source writes them.\<close>

definition duration_of ::
  "runtime \<Rightarrow> string \<Rightarrow> string \<Rightarrow> jsval \<Rightarrow> jsval \<Rightarrow> thrown + jsval" where
  "duration_of rt what_a what_b a b =
     andThen (if truthy a then js_replace what_a (replace_first ''s'' []) a
              else Inr (JStr ''Unknown duration'')) (\<lambda>duration_text.
     andThen (if truthy b
              then andThen (js_replace what_b (replace_first ''s'' []) b)
                     (\<lambda>d. Inr (parseInt (ToString rt d)))
              else Inr (JNum 0)) (\<lambda>duration_value.
       Inr (JObj [(''text'', duration_text), (''value'', duration_value)])))"

definition step_of :: "runtime \<Rightarrow> jsval \<Rightarrow> jsval \<Rightarrow> thrown + jsval" where
  "step_of rt travelMode step =
     andThen (member step ''navigationInstruction'') (\<lambda>navigationInstruction.
     andThen (duration_of rt ''step.staticDuration'' ''step.staticDuration''
                (opt_member step ''staticDuration'') (opt_member step ''staticDuration'')) (\<lambda>duration.
       Inr (JObj
         [(''instructions'',
             js_or (js_or (opt_member navigationInstruction ''instructions'')
                          (opt_member (opt_member (opt_member step ''travelAdvisory'') ''text'') ''text''))
                   (JStr [])),
          (''distance'', distance_of rt (opt_member step ''distanceMeters'')),
          (''duration'', duration),
          (''travel_mode'', travelMode)])))"

text \<open>\<^verbatim>\<open>v?.[0]\<close>\<close>

definition opt_first :: "jsval \<Rightarrow> jsval" where
  "opt_first v = (case first_element v of Inl e \<Rightarrow> JUndefined | Inr x \<Rightarrow> x)"

definition route_of :: "runtime \<Rightarrow> jsval \<Rightarrow> jsval \<Rightarrow> thrown + jsval" where
  "route_of rt travelMode route =
     andThen (member route ''description'') (\<lambda>description.
     andThen (duration_of rt ''route.duration'' ''route.staticDuration''
                (opt_member route ''duration'') (opt_member route ''staticDuration'')) (\<lambda>duration.
     andThen (opt_map ''route.legs?.[0]?.steps'' (step_of rt travelMode)
                (opt_member (opt_first (opt_member route ''legs'')) ''steps'')) (\<lambda>steps.
       Inr (JObj
         [(''summary'', js_or description (JStr ''Route'')),
          (''distance'', distance_of rt (opt_member route ''distanceMeters'')),
          (''duration'', duration),
          (''steps'', js_or steps (JArr []))]))))"

definition handleDirections ::
  "runtime \<Rightarrow> jsval \<Rightarrow> jsval \<Rightarrow> jsval \<Rightarrow> fetched \<Rightarrow> thrown + ToolResult" where
  "handleDirections rt origin destination mode fetch =
     andThen (directionsRequest rt origin destination mode) (\<lambda>requestBody.
     andThen fetch (\<lambda>response.
     andThen (json_body response) (\<lambda>data.
     andThen (if http_status response \<noteq> 200 then Inr True
              else andThen (member data ''error'') (\<lambda>e. Inr (truthy e))) (\<lambda>failed.
       if failed then
         andThen (member data ''error'') (\<lambda>e.
           Inr (failure (''Directions request failed: '' @ ToString rt
             (js_or (js_or (opt_member e ''message'') (JStr (statusText response)))
                    (JStr ''No routes found'')))))
       else
         andThen (opt_map ''data.routes'' (route_of rt (googleTravelMode rt mode))
                    (opt_member data ''routes'')) (\<lambda>routes.
           Inr (success (JObj [(''routes'', js_or routes (JArr []))])))))))"

section \<open>The dispatcher\<close>

record call_request =
  name :: string
  arguments :: jsval

text \<open>\<^verbatim>\<open>const { k } = request.params.arguments\<close>\<close>

definition destructure :: "jsval \<Rightarrow> string \<Rightarrow> thrown + jsval" where
  "destructure args k =
     (if nullish args
      then Inl (TypeError (''Cannot destructure property '' @ [CHR 39] @ k @ [CHR 39]
             @ '' of '' @ [CHR 39] @ ''request.params.arguments'' @ [CHR 39] @ '' as it is ''
             @ (if args = JNull then ''null'' else ''undefined'') @ ''.''))
      else Inr (opt_member args k))"

text \<open>The seven transcoders, each with the outcome of its one \<^verbatim>\<open>fetch\<close>.\<close>

record transcoders =
  geocode :: "jsval \<Rightarrow> thrown + ToolResult"
  reverse_geocode :: "jsval \<Rightarrow> jsval \<Rightarrow> thrown + ToolResult"
  search_places :: "jsval \<Rightarrow> jsval \<Rightarrow> jsval \<Rightarrow> thrown + ToolResult"
  place_details :: "jsval \<Rightarrow> thrown + ToolResult"
  distance_matrix :: "jsval \<Rightarrow> jsval \<Rightarrow> jsval \<Rightarrow> thrown + ToolResult"
  elevation :: "jsval \<Rightarrow> thrown + ToolResult"
  directions :: "jsval \<Rightarrow> jsval \<Rightarrow> jsval \<Rightarrow> thrown + ToolResult"

definition maps_transcoders :: "runtime \<Rightarrow> fetched \<Rightarrow> transcoders" where
  "maps_transcoders rt fetch =
     \<lparr>geocode = (\<lambda>address. handleGeocode rt fetch),
      reverse_geocode = (\<lambda>latitude longitude. handleReverseGeocode rt fetch),
      search_places = (\<lambda>query location radius. handlePlaceSearch rt fetch),
      place_details = (\<lambda>place_id. handlePlaceDetails rt fetch),
      distance_matrix = (\<lambda>origins destinations mode.
         handleDistanceMatrix rt origins destinations mode fetch),
      elevation = (\<lambda>locations. handleElevation rt locations fetch),
      directions = (\<lambda>origin destination mode.
         handleDirections rt origin destination mode fetch)\<rparr>"

text \<open>The \<^verbatim>\<open>try\<close> block of the \<^verbatim>\<open>CallToolRequestSchema\<close> handler: the \<^verbatim>\<open>switch\<close>.\<close>

definition switch_on_name :: "transcoders \<Rightarrow> call_request \<Rightarrow> thrown + ToolResult" where
  "switch_on_name t request =
     (let args = arguments request in
      if name request = ''maps_geocode'' then
        andThen (destructure args ''address'') (\<lambda>address. geocode t address)
      else if name request = ''maps_reverse_geocode'' then
        andThen (destructure args ''latitude'') (\<lambda>latitude.
        andThen (destructure args ''longitude'') (\<lambda>longitude.
          reverse_geocode t latitude longitude))
      else if name request = ''maps_search_places'' then
        andThen (destructure args ''query'') (\<lambda>query.
        andThen (destructure args ''location'') (\<lambda>location.
        andThen (destructure args ''radius'') (\<lambda>radius.
          search_places t query location radius)))
      else if name request = ''maps_place_details'' then
        andThen (destructure args ''place_id'') (\<lambda>place_id. place_details t place_id)
      else if name request = ''maps_distance_matrix'' then
        andThen (destructure args ''origins'') (\<lambda>origins.
        andThen (destructure args ''destinations'') (\<lambda>destinations.
        andThen (destructure args ''mode'') (\<lambda>mode.
          distance_matrix t origins destinations mode)))
      else if name request = ''maps_elevation'' then
        andThen (destructure args ''locations'') (\<lambda>locations. elevation t locations)
      else if name request = ''maps_directions'' then
        andThen (destructure args ''origin'') (\<lambda>origin.
        andThen (destructure args ''destination'') (\<lambda>destination.
        andThen (destructure args ''mode'') (\<lambda>mode.
          directions t origin destination mode)))
      else Inr (failure (''Unknown tool: '' @ name request)))"

text \<open>The handler: the \<^verbatim>\<open>try\<close> block and its \<^verbatim>\<open>catch\<close>.\<close>

definition callTool :: "transcoders \<Rightarrow> call_request \<Rightarrow> ToolResult" where
  "callTool t request =
     (case switch_on_name t request of
        Inl error \<Rightarrow> failure (''Error: '' @ error_message error)
      | Inr result \<Rightarrow> result)"

definition tool_names :: "string list" where
  "tool_names =
     [''maps_geocode'', ''maps_reverse_geocode'', ''maps_search_places'',
      ''maps_place_details'', ''maps_distance_matrix'', ''maps_elevation'', ''maps_directions'']"


section \<open>Sample inputs\<close>

text \<open>A runtime for the samples. Its \<open>kmFixed1\<close> is \<^verbatim>\<open>(v / 1000).toFixed(1)\<close> on the two
  distances the samples hold, 1500 and 900; no sample reaches \<open>render\<close> or \<open>toNumber\<close>, nor
  \<open>kmFixed1\<close> on another value.\<close>

definition sample_runtime :: runtime where
  "sample_runtime =
     \<lparr>render = (\<lambda>v. []),
      toNumber = (\<lambda>s. JNaN),
      kmFixed1 = (\<lambda>v. if v = JNum 1500 then ''1.5'' else if v = JNum 900 then ''0.9'' else [])\<rparr>"

definition connection_refused :: fetched where
  "connection_refused = Inl (ErrorObj ''connect ECONNREFUSED'')"

definition ok_response :: "jsval \<Rightarrow> fetched" where
  "ok_response data =
     Inr \<lparr>http_status = 200, statusText = ''OK'', json_body = Inr data, text_body = Inr []\<rparr>"




text \<open>The index pair an upstream item is tagged with, and the pairs of an \<open>n\<close> by \<open>m\<close>
  matrix.\<close>

definition pair_of :: "jsval \<Rightarrow> jsval \<times> jsval" where
  "pair_of item = (opt_member item ''originIndex'', opt_member item ''destinationIndex'')"

definition index_pair :: "nat \<Rightarrow> nat \<Rightarrow> jsval \<times> jsval" where
  "index_pair i j = (JNum (of_nat i), JNum (of_nat j))"

definition all_pairs :: "nat \<Rightarrow> nat \<Rightarrow> (jsval \<times> jsval) set" where
  "all_pairs n m = set (map (\<lambda>(i, j). index_pair i j) (List.product [0..<n] [0..<m]))"

text \<open>An item whose element can be built: its duration is a string whenever the duration
  or the distance is truthy.\<close>

definition has_duration_string :: "jsval \<Rightarrow> bool" where
  "has_duration_string item =
     (if truthy (opt_member item ''duration'') \<or> truthy (opt_member item ''distanceMeters'')
      then (case opt_member item ''duration'' of JStr s \<Rightarrow> True | _ \<Rightarrow> False)
      else True)"

definition sample_items :: "jsval list" where
  "sample_items =
     [JObj [(''originIndex'', JNum 1), (''destinationIndex'', JNum 0),
            (''duration'', JStr ''95s''), (''distanceMeters'', JNum 900)],
      JObj [(''originIndex'', JNum 0), (''destinationIndex'', JNum 0),
            (''duration'', JStr ''120s''), (''distanceMeters'', JNum 1500)]]"

definition sample_rows :: "jsval list list" where
  "sample_rows =
     [[JObj [(''status'', JStr ''OK''),
             (''duration'', JObj [(''text'', JStr ''120''), (''value'', JNum 120)]),
             (''distance'', JObj [(''text'', JStr ''1.5 km''), (''value'', JNum 1500)])]],
      [JObj [(''status'', JStr ''OK''),
             (''duration'', JObj [(''text'', JStr ''95''), (''value'', JNum 95)]),
             (''distance'', JObj [(''text'', JStr ''0.9 km''), (''value'', JNum 900)])]]]"

text \<open>An item with a distance and no duration.\<close>

definition item_without_duration :: jsval where
  "item_without_duration =
     JObj [(''originIndex'', JNum 0), (''destinationIndex'', JNum 0), (''distanceMeters'', JNum 1500)]"

text \<open>What \<^verbatim>\<open>response.json()\<close> can return: a JSON value.\<close>

fun is_json :: "jsval \<Rightarrow> bool" where
  "is_json JUndefined = False"
| "is_json JNull = True"
| "is_json (JBool b) = True"
| "is_json (JNum r) = True"
| "is_json JNaN = False"
| "is_json (JStr s) = True"
| "is_json (JArr xs) = list_all is_json xs"
| "is_json (JObj props) = list_all is_json (map snd props)"
| "is_json (JInherited k) = False"






section \<open>Fallbacks of the output fields\<close>









subsection \<open>Geocoding, place search, elevation\<close>







subsection \<open>Place details\<close>











subsection \<open>Distance matrix\<close>



subsection \<open>Directions\<close>






subsection \<open>Samples\<close>









section \<open>Coordinates as the specification words them\<close>

text \<open>\<^verbatim>\<open>\d{1,2}(\.\d+)?\<close> and \<^verbatim>\<open>\d{1,3}(\.\d+)?\<close>\<close>

definition spec_latitude_rx :: rx where
  "spec_latitude_rx = Seq digit (Seq (Opt digit) (fraction digit))"

definition spec_longitude_rx :: rx where
  "spec_longitude_rx = Seq digit (Seq (Opt digit) (Seq (Opt digit) (fraction digit)))"

text \<open>The frame both expressions share: sign, latitude, comma, white space, sign,
  longitude.\<close>

definition coordinate_frame :: "string \<Rightarrow> rx \<Rightarrow> rx \<Rightarrow> rx" where
  "coordinate_frame signs lat lng =
     Seq (Opt (Cls signs))
    (Seq lat
    (Seq (Cls '','')
    (Seq (Star (Cls space_chars))
    (Seq (Opt (Cls signs))
         lng))))"

text \<open>\<^verbatim>\<open>^-?\d{1,2}(\.\d+)?,\s*-?\d{1,3}(\.\d+)?$\<close>, the expression of the specification, and
  the same with \<^verbatim>\<open>[-+]?\<close> for each sign.\<close>

definition spec_coord_rx :: rx where
  "spec_coord_rx = coordinate_frame ''-'' spec_latitude_rx spec_longitude_rx"

definition signed_coord_rx :: rx where
  "signed_coord_rx = coordinate_frame ''-+'' spec_latitude_rx spec_longitude_rx"

text \<open>The number a piece of \<^verbatim>\<open>s.split(',')\<close> denotes, as an exact decimal: leading white
  space and one sign are skipped, then come the integer digits and, after a point, the
  fraction digits.\<close>

definition number_text :: "string \<Rightarrow> string" where
  "number_text t =
     (let u = dropWhile is_space t
      in if take 1 u = ''-'' \<or> take 1 u = ''+'' then drop 1 u else u)"

definition is_negative :: "string \<Rightarrow> bool" where
  "is_negative t = (take 1 (dropWhile is_space t) = ''-'')"

definition int_digits :: "string \<Rightarrow> string" where
  "int_digits b = takeWhile is_digit b"

definition after_int :: "string \<Rightarrow> string" where
  "after_int b = dropWhile is_digit b"

definition frac_digits :: "string \<Rightarrow> string" where
  "frac_digits b = (case after_int b of
       [] \<Rightarrow> []
     | c # g \<Rightarrow> (if c = CHR ''.'' then takeWhile is_digit g else []))"

definition nat_of_digits :: "string \<Rightarrow> nat" where
  "nat_of_digits ds = foldl (\<lambda>n c. 10 * n + digit_value c) 0 ds"

definition magnitude :: "string \<Rightarrow> rat" where
  "magnitude b = of_nat (nat_of_digits (int_digits b))
               + of_nat (nat_of_digits (frac_digits b)) / 10 ^ length (frac_digits b)"

definition decimal_of :: "string \<Rightarrow> rat" where
  "decimal_of t =
     (if is_negative t then - magnitude (number_text t) else magnitude (number_text t))"

definition in_range :: "nat \<Rightarrow> string \<Rightarrow> bool" where
  "in_range bound t = (- of_nat bound \<le> decimal_of t \<and> decimal_of t \<le> of_nat bound)"

text \<open>No redundant leading zero: the integer part is one digit, or does not start with 0.\<close>

definition canonical :: "string \<Rightarrow> bool" where
  "canonical t =
     (let i = int_digits (number_text t) in length i \<le> 1 \<or> take 1 i \<noteq> ''0'')"

definition part :: "string \<Rightarrow> nat \<Rightarrow> string" where
  "part s k = (let ps = split_on (CHR '','') s in if k < length ps then ps ! k else [])"

text \<open>The classification as the specification states it, and as the source has it.\<close>

definition claimed_coordinate :: "string \<Rightarrow> bool" where
  "claimed_coordinate s =
     (regex_test spec_coord_rx s \<and> in_range 90 (part s 0) \<and> in_range 180 (part s 1))"

definition amended_coordinate :: "string \<Rightarrow> bool" where
  "amended_coordinate s =
     (regex_test signed_coord_rx s \<and> in_range 90 (part s 0) \<and> in_range 180 (part s 1)
      \<and> canonical (part s 0) \<and> canonical (part s 1))"

text \<open>A fraction over the digits \<open>ds\<close>: nothing, or a point and at least one digit.\<close>

definition fraction_ok :: "string \<Rightarrow> string \<Rightarrow> bool" where
  "fraction_ok ds f = (case f of
       [] \<Rightarrow> True
     | c # g \<Rightarrow> c = CHR ''.'' \<and> g \<noteq> [] \<and> list_all (\<lambda>x. x \<in> set ds) g)"

section \<open>The words of a regular expression\<close>

definition conc :: "string set \<Rightarrow> string set \<Rightarrow> string set" where
  "conc A B = {u @ v | u v. u \<in> A \<and> v \<in> B}"

inductive_set star :: "string set \<Rightarrow> string set" for A :: "string set" where
  star_empty: "[] \<in> star A"
| star_more: "u \<in> A \<Longrightarrow> v \<in> star A \<Longrightarrow> u @ v \<in> star A"

fun lang :: "rx \<Rightarrow> string set" where
  "lang Never = {}"
| "lang Empty = {[]}"
| "lang (Cls cs) = {[c] | c. c \<in> set cs}"
| "lang (Seq r s) = conc (lang r) (lang s)"
| "lang (Alt r s) = lang r \<union> lang s"
| "lang (Opt r) = insert [] (lang r)"
| "lang (Star r) = star (lang r)"
| "lang (Plus r) = conc (lang r) (star (lang r))"

section \<open>Basic facts\<close>

lemma andThen_simps:
  "andThen (Inl e) f = Inl e"
  "andThen (Inr x) f = f x"
  by (simp_all add: andThen_def)

lemma andThen_Inr_iff:
  "andThen m f = Inr y \<longleftrightarrow> (\<exists>x. m = Inr x \<and> f x = Inr y)"
  by (cases m) (simp_all add: andThen_def)

lemma member_opt_member:
  "\<not> nullish v \<Longrightarrow> member v k = Inr (opt_member v k)"
  by (cases v) (simp_all add: member_def opt_member_def nullish_def)


lemma member_undefined: "member JUndefined k = Inl (read_error JUndefined k)"
  by (simp add: member_def)

lemma isError_failure: "isError (failure msg) = True"
  by (simp add: failure_def)

section \<open>The dispatcher's catch\<close>




text \<open>With the transcoders of the source: when the \<^verbatim>\<open>fetch\<close> is rejected, or the body is not
  JSON, every call ends in an error result.\<close>

lemma place_details_never_throws:
  "\<exists>r. handlePlaceDetails rt fetch = Inr r"
  by (simp add: handlePlaceDetails_def split: sum.splits)

lemma failed_fetch_handlers:
  assumes "fetch = Inl e \<or> (\<exists>response. fetch = Inr response \<and> json_body response = Inl e)"
  shows "handleGeocode rt fetch = Inl e"
    and "handleReverseGeocode rt fetch = Inl e"
    and "handlePlaceSearch rt fetch = Inl e"
    and "\<exists>msg. handlePlaceDetails rt fetch = Inr (failure msg)"
  using assms
  by (auto simp: handleGeocode_def handleReverseGeocode_def handlePlaceSearch_def
      handlePlaceDetails_def andThen_simps Let_def)

lemma failed_fetch_routes:
  assumes "fetch = Inl e \<or> (\<exists>response. fetch = Inr response \<and> json_body response = Inl e)"
  shows "\<exists>e'. handleDistanceMatrix rt origins destinations mode fetch = Inl e'"
    and "\<exists>e'. handleElevation rt locations fetch = Inl e'"
    and "\<exists>e'. handleDirections rt origin destination mode fetch = Inl e'"
  using assms
  by (auto simp: handleDistanceMatrix_def handleElevation_def handleDirections_def
      andThen_def split: sum.splits)

text \<open>So with the transcoders of the source a call whose \<^verbatim>\<open>fetch\<close> is rejected, or whose
  body is not JSON, ends in an error result, whatever the request.\<close>

lemma failed_fetch_is_error_result:
  assumes "fetch = Inl e \<or> (\<exists>response. fetch = Inr response \<and> json_body response = Inl e)"
  shows "isError (callTool (maps_transcoders rt fetch) request)"
proof -
  let ?t = "maps_transcoders rt fetch"
  note a = failed_fetch_handlers [OF assms, of rt]
  note b = failed_fetch_routes [OF assms, of rt]
  have h1: "geocode ?t x = Inr r \<Longrightarrow> isError r" for x r
    using a(1) by (simp add: maps_transcoders_def)
  have h2: "reverse_geocode ?t x y = Inr r \<Longrightarrow> isError r" for x y r
    using a(2) by (simp add: maps_transcoders_def)
  have h3: "search_places ?t x y z = Inr r \<Longrightarrow> isError r" for x y z r
    using a(3) by (simp add: maps_transcoders_def)
  have h4: "place_details ?t x = Inr r \<Longrightarrow> isError r" for x r
    using a(4) by (auto simp: maps_transcoders_def failure_def)
  have h5: "distance_matrix ?t x y z = Inr r \<Longrightarrow> isError r" for x y z r
    using b(1) [of x y z] by (auto simp: maps_transcoders_def)
  have h6: "elevation ?t x = Inr r \<Longrightarrow> isError r" for x r
    using b(2) [of x] by (auto simp: maps_transcoders_def)
  have h7: "directions ?t x y z = Inr r \<Longrightarrow> isError r" for x y z r
    using b(3) [of x y z] by (auto simp: maps_transcoders_def)
  have "isError r" if "switch_on_name ?t request = Inr r" for r
    using that unfolding switch_on_name_def Let_def
    by (auto simp: andThen_Inr_iff failure_def split: if_splits
        dest: h1 h2 h3 h4 h5 h6 h7)
  then show ?thesis
    by (cases "switch_on_name ?t request") (simp_all add: callTool_def failure_def)
qed

section \<open>Unknown tools\<close>

text \<open>
  C9. For a request whose tool name is none of the seven registered names the handler
  returns \<^verbatim>\<open>{content: [{type: "text", text: "Unknown tool: <name>"}], isError: true}\<close>,
  and it does so for every choice of the seven transcoders: none of them is consulted.
\<close>

theorem unknown_tool:
  "name request \<notin> set tool_names \<Longrightarrow>
   callTool t request =
     \<lparr>content = [\<lparr>ctype = ''text'', ctext = Literal (''Unknown tool: '' @ name request)\<rparr>],
      isError = True\<rparr>"
  by (simp add: callTool_def switch_on_name_def tool_names_def failure_def)

theorem unknown_tool_witness:
  "''maps_nonexistent'' \<notin> set tool_names
   \<and> callTool (maps_transcoders sample_runtime connection_refused)
        \<lparr>name = ''maps_nonexistent'', arguments = JUndefined\<rparr>
     = \<lparr>content = [\<lparr>ctype = ''text'', ctext = Literal ''Unknown tool: maps_nonexistent''\<rparr>],
        isError = True\<rparr>"
proof -
  have h: "name \<lparr>name = ''maps_nonexistent'', arguments = JUndefined\<rparr> \<notin> set tool_names"
    by (simp add: tool_names_def)
  from unknown_tool [OF h, of "maps_transcoders sample_runtime connection_refused"] h
  show ?thesis by simp
qed

section \<open>Price level\<close>

lemma price_level_table:
  "getPriceLevelValue ''PRICE_LEVEL_FREE'' = JNum 0"
  "getPriceLevelValue ''PRICE_LEVEL_INEXPENSIVE'' = JNum 1"
  "getPriceLevelValue ''PRICE_LEVEL_MODERATE'' = JNum 2"
  "getPriceLevelValue ''PRICE_LEVEL_EXPENSIVE'' = JNum 3"
  "getPriceLevelValue ''PRICE_LEVEL_VERY_EXPENSIVE'' = JNum 4"
  by (simp_all add: getPriceLevelValue_def priceLevelMap_def object_get_def js_coalesce_def
      nullish_def)

lemma price_level_fallback:
  assumes "s \<notin> fst ` set priceLevelMap" and "s \<notin> set object_prototype_keys"
  shows "getPriceLevelValue s = JNum 0"
proof -
  from assms(1) have "map_of priceLevelMap s = None"
    by (simp add: map_of_eq_None_iff)
  with assms(2) show ?thesis
    by (simp add: getPriceLevelValue_def object_get_def js_coalesce_def nullish_def)
qed

text \<open>
  C8. The five level names map to 0, 1, 2, 3, 4 (lemma \<open>price_level_table\<close>) and a string
  that names nothing in the table and nothing on its prototype chain maps to 0 (lemma
  \<open>price_level_fallback\<close>). The lookup \<^verbatim>\<open>priceLevelMap[priceLevel]\<close> also finds the members
  an object literal inherits, so for the string \<^verbatim>\<open>constructor\<close> the function returns the
  inherited member, which \<^verbatim>\<open>??\<close> keeps: the result is not 0.
\<close>

theorem price_level_of_inherited_key:
  "getPriceLevelValue ''constructor'' = JInherited ''constructor''
   \<and> getPriceLevelValue ''constructor'' \<noteq> JNum 0"
  by (simp add: getPriceLevelValue_def priceLevelMap_def object_get_def js_coalesce_def
      nullish_def object_prototype_keys_def)

section \<open>Routing preference\<close>




section \<open>Geocoding with no result\<close>

lemma geocode_empty_results:
  assumes "fetch = Inr response" and "json_body response = Inr data"
    and "opt_member data ''status'' = JStr ''OK''" and "opt_member data ''results'' = JArr []"
  shows "handleGeocode rt fetch = Inl (read_error JUndefined ''geometry'')"
    and "handleReverseGeocode rt fetch = Inl (read_error JUndefined ''formatted_address'')"
proof -
  from assms(3) have nn: "\<not> nullish data"
    by (auto simp: nullish_def opt_member_def)
  show "handleGeocode rt fetch = Inl (read_error JUndefined ''geometry'')"
    using assms
    by (simp add: handleGeocode_def andThen_simps member_opt_member [OF nn] first_element_def
        member_undefined)
  show "handleReverseGeocode rt fetch = Inl (read_error JUndefined ''formatted_address'')"
    using assms
    by (simp add: handleReverseGeocode_def andThen_simps member_opt_member [OF nn]
        first_element_def member_undefined)
qed

lemma switch_geocode:
  "name request = ''maps_geocode'' \<Longrightarrow>
   switch_on_name t request =
     andThen (destructure (arguments request) ''address'') (\<lambda>address. geocode t address)"
  by (simp add: switch_on_name_def Let_def)

lemma switch_reverse_geocode:
  "name request = ''maps_reverse_geocode'' \<Longrightarrow>
   switch_on_name t request =
     andThen (destructure (arguments request) ''latitude'') (\<lambda>latitude.
     andThen (destructure (arguments request) ''longitude'') (\<lambda>longitude.
       reverse_geocode t latitude longitude))"
  by (simp add: switch_on_name_def Let_def)

lemma andThen_const_Inl:
  "\<exists>e'. andThen m (\<lambda>x. Inl e) = Inl e'"
  by (cases m) (simp_all add: andThen_def)

lemma andThen_const_Inl2:
  "\<exists>e'. andThen m (\<lambda>x. andThen (m' x) (\<lambda>y. Inl e)) = Inl e'"
  by (cases m) (simp_all add: andThen_def split: sum.splits)

lemma isError_callTool_Inl:
  "switch_on_name t request = Inl e \<Longrightarrow> isError (callTool t request)"
  by (simp add: callTool_def failure_def)

text \<open>
  C10. When the upstream body of \<^verbatim>\<open>maps_geocode\<close> or \<^verbatim>\<open>maps_reverse_geocode\<close> has status
  \<^verbatim>\<open>"OK"\<close> and an empty \<^verbatim>\<open>results\<close> list, the handler reads a property of
  \<^verbatim>\<open>results[0]\<close>, which is \<^verbatim>\<open>undefined\<close>; the call returns an error result, never a
  success envelope, whatever the arguments.
\<close>

theorem geocode_empty_results_is_error:
  assumes "fetch = Inr response" and "json_body response = Inr data"
    and "opt_member data ''status'' = JStr ''OK''" and "opt_member data ''results'' = JArr []"
    and "name request = ''maps_geocode'' \<or> name request = ''maps_reverse_geocode''"
  shows "isError (callTool (maps_transcoders rt fetch) request)
       \<and> handleGeocode rt fetch = Inl (read_error JUndefined ''geometry'')
       \<and> handleReverseGeocode rt fetch = Inl (read_error JUndefined ''formatted_address'')"
proof -
  note h = geocode_empty_results [OF assms(1-4), of rt]
  have g: "geocode (maps_transcoders rt fetch) = (\<lambda>a. Inl (read_error JUndefined ''geometry''))"
    by (simp add: maps_transcoders_def h)
  have r: "reverse_geocode (maps_transcoders rt fetch) =
      (\<lambda>a b. Inl (read_error JUndefined ''formatted_address''))"
    by (simp add: maps_transcoders_def h)
  have "\<exists>e. switch_on_name (maps_transcoders rt fetch) request = Inl e"
  proof (rule disjE [OF assms(5)])
    assume "name request = ''maps_geocode''"
    then show ?thesis
      by (simp only: switch_geocode g andThen_const_Inl)
  next
    assume "name request = ''maps_reverse_geocode''"
    then show ?thesis
      by (simp only: switch_reverse_geocode r andThen_const_Inl2)
  qed
  then have "isError (callTool (maps_transcoders rt fetch) request)"
    by (auto intro: isError_callTool_Inl)
  with h show ?thesis by simp
qed

theorem geocode_empty_results_is_error_witness:
  "callTool (maps_transcoders sample_runtime
       (ok_response (JObj [(''status'', JStr ''OK''), (''results'', JArr [])])))
     \<lparr>name = ''maps_geocode'', arguments = JObj [(''address'', JStr ''Nowhere'')]\<rparr>
   = \<lparr>content = [\<lparr>ctype = ''text'',
         ctext = Literal (''Error: '' @ error_message (read_error JUndefined ''geometry''))\<rparr>],
      isError = True\<rparr>"
proof -
  let ?data = "JObj [(''status'', JStr ''OK''), (''results'', JArr [])]"
  let ?request = "\<lparr>name = ''maps_geocode'', arguments = JObj [(''address'', JStr ''Nowhere'')]\<rparr>"
  have a: "ok_response ?data =
      Inr \<lparr>http_status = 200, statusText = ''OK'', json_body = Inr ?data, text_body = Inr []\<rparr>"
    by (simp add: ok_response_def)
  have b: "json_body \<lparr>http_status = 200, statusText = ''OK'', json_body = Inr ?data,
      text_body = Inr []\<rparr> = Inr ?data"
    by simp
  have c: "opt_member ?data ''status'' = JStr ''OK''"
    by (simp add: opt_member_def object_get_def)
  have d: "opt_member ?data ''results'' = JArr []"
    by (simp add: opt_member_def object_get_def)
  have n: "name ?request = ''maps_geocode'' \<or> name ?request = ''maps_reverse_geocode''"
    by simp
  from geocode_empty_results_is_error [OF a b c d n, of sample_runtime]
  have "handleGeocode sample_runtime (ok_response ?data) = Inl (read_error JUndefined ''geometry'')"
    by simp
  then show ?thesis
    by (simp add: callTool_def switch_on_name_def maps_transcoders_def destructure_def
        nullish_def andThen_simps failure_def)
qed




lemmas rx_defs = coordRegex_def latitude_rx_def longitude_rx_def digit_def fraction_def
  digit_chars_def space_chars_def

lemma not_coordinate_samples:
  "\<not> regex_test coordRegex ''Berlin''"
  "\<not> regex_test coordRegex ''Munich''"
  "\<not> regex_test coordRegex ''Paris''"
  by (simp_all add: rx_defs)



section \<open>Durations in the distance matrix\<close>

lemma replace_first_s_123s: "replace_first ''s'' [] ''123s'' = ''123''"
  by simp

lemma parseInt_123: "parseInt ''123'' = JNum 123"
  by (simp add: parseInt_def is_space_def space_chars_def radix_digit_def hex_value_def
      hex_chars_def digits_value_def Let_def)

text \<open>
  C3. In an element of the distance matrix the numeric duration is computed under the test
  \<^verbatim>\<open>item.distanceMeters ? ... : 0\<close>, not under a test of the duration itself (as the
  steps and routes of \<^verbatim>\<open>directions\<close> do). So an item with the duration \<^verbatim>\<open>"123s"\<close> and no
  distance gets the value 0; only with a distance does it get 123. An item with neither
  gets the text \<^verbatim>\<open>Unknown\<close> and the value 0. An item with a distance and no duration
  makes \<^verbatim>\<open>item.duration.replace\<close> throw, which ends the whole reassembly.
\<close>

theorem matrix_duration_value_tests_distance:
  "matrix_element rt (JObj [(''originIndex'', JNum 0), (''destinationIndex'', JNum 0),
                            (''duration'', JStr ''123s'')])
     = Inr (JObj [(''status'', JStr ''OK''),
                  (''duration'', JObj [(''text'', JStr ''123''), (''value'', JNum 0)]),
                  (''distance'', JObj [(''text'', JStr ''Unknown''), (''value'', JUndefined)])])
   \<and> matrix_element rt (JObj [(''originIndex'', JNum 0), (''destinationIndex'', JNum 0),
                            (''duration'', JStr ''123s''), (''distanceMeters'', JNum 1500)])
     = Inr (JObj [(''status'', JStr ''OK''),
                  (''duration'', JObj [(''text'', JStr ''123''), (''value'', JNum 123)]),
                  (''distance'', JObj [(''text'', JStr (kmFixed1 rt (JNum 1500) @ '' km'')),
                                       (''value'', JNum 1500)])])
   \<and> matrix_element rt (JObj [(''originIndex'', JNum 0), (''destinationIndex'', JNum 0)])
     = Inr (JObj [(''status'', JStr ''OK''),
                  (''duration'', JObj [(''text'', JStr ''Unknown''), (''value'', JNum 0)]),
                  (''distance'', JObj [(''text'', JStr ''Unknown''), (''value'', JUndefined)])])
   \<and> reassemble rt 1 1 [JObj [(''originIndex'', JNum 0), (''destinationIndex'', JNum 0),
                               (''distanceMeters'', JNum 1500)]]
     = Inl (read_error JUndefined ''replace'')"
  by (simp add: matrix_element_def opt_member_def object_get_def object_prototype_keys_def
      truthy_def js_replace_def andThen_simps js_or_def ToString_def parseInt_123
      reassemble_def matrix_step_def member_def array_index_def is_integral_def Let_def)

section \<open>Photo references\<close>

text \<open>
  C6. For a photo resource name \<^verbatim>\<open>places/<place_id>/photos/<photo_id>\<close> the two
  replacements remove the leading \<^verbatim>\<open>places/\<close> and then everything from \<^verbatim>\<open>/photos/\<close> on:
  what is emitted as \<^verbatim>\<open>photo_reference\<close> is the place id, not the photo id (in general:
  lemma \<open>photo_reference_general\<close>).
\<close>

theorem photo_reference_is_place_id:
  "photo_reference ''places/ChIJN1t_tDeuEmsRUsoyG83frY4/photos/AUc7tXVrKq9''
     = ''ChIJN1t_tDeuEmsRUsoyG83frY4''"
  by (simp add: photo_reference_def is_line_terminator_def)

lemma remove_photos_tail_at_first_slash:
  "CHR ''/'' \<notin> set p \<Longrightarrow>
   remove_photos_tail (p @ ''/photos/'' @ q) = p @ dropWhile (\<lambda>x. \<not> is_line_terminator x) q"
proof (induction p)
  case Nil
  show ?case by simp
next
  case (Cons c p)
  then have "c \<noteq> CHR ''/''" by auto
  with Cons show ?case by simp
qed

lemma photo_reference_general:
  assumes "CHR ''/'' \<notin> set place_id" and "\<forall>c \<in> set photo_id. \<not> is_line_terminator c"
  shows "photo_reference (''places/'' @ place_id @ ''/photos/'' @ photo_id) = place_id"
proof -
  have a: "replace_first ''places/'' [] (''places/'' @ place_id @ ''/photos/'' @ photo_id)
      = place_id @ ''/photos/'' @ photo_id"
    by simp
  have b: "remove_photos_tail (place_id @ ''/photos/'' @ photo_id)
      = place_id @ dropWhile (\<lambda>x. \<not> is_line_terminator x) photo_id"
    by (rule remove_photos_tail_at_first_slash [OF assms(1)])
  have c: "dropWhile (\<lambda>x. \<not> is_line_terminator x) photo_id = []"
    using assms(2) by (simp add: dropWhile_eq_Nil_conv)
  show ?thesis
    unfolding photo_reference_def a b c by simp
qed

section \<open>Reassembling the distance matrix\<close>

lemma array_index_of_nat:
  "i < 4294967295 \<Longrightarrow> array_index rt (JNum (of_nat i)) = Some i"
  by (simp add: array_index_def is_integral_def)

lemma matrix_element_builds:
  assumes "has_duration_string item"
  shows "\<exists>element. matrix_element rt item = Inr element"
proof (cases "opt_member item ''duration''")
  case (JStr s)
  then show ?thesis
    by (simp add: matrix_element_def Let_def js_replace_def andThen_simps)
next
  case JUndefined
  with assms show ?thesis
    by (simp add: matrix_element_def Let_def has_duration_string_def truthy_def andThen_simps
        split: if_splits)
next
  case JNull
  with assms show ?thesis
    by (simp add: matrix_element_def Let_def has_duration_string_def truthy_def andThen_simps
        split: if_splits)
next
  case (JBool b)
  with assms show ?thesis
    by (simp add: matrix_element_def Let_def has_duration_string_def truthy_def andThen_simps
        split: if_splits)
next
  case (JNum r)
  with assms show ?thesis
    by (simp add: matrix_element_def Let_def has_duration_string_def truthy_def andThen_simps
        split: if_splits)
next
  case JNaN
  with assms show ?thesis
    by (simp add: matrix_element_def Let_def has_duration_string_def truthy_def andThen_simps
        split: if_splits)
next
  case (JArr xs)
  with assms show ?thesis
    by (simp add: has_duration_string_def truthy_def)
next
  case (JObj ps)
  with assms show ?thesis
    by (simp add: has_duration_string_def truthy_def)
next
  case (JInherited k)
  with assms show ?thesis
    by (simp add: has_duration_string_def truthy_def)
qed

lemma pair_of_not_nullish:
  "pair_of item = index_pair i j \<Longrightarrow> \<not> nullish item"
  by (auto simp: pair_of_def index_pair_def nullish_def opt_member_def)

lemma matrix_step_in_range:
  assumes p: "pair_of item = index_pair i j"
    and i: "i < length resultMatrix" "i < 4294967295"
    and j: "j < length (resultMatrix ! i)" "j < 4294967295"
    and e: "matrix_element rt item = Inr element"
  shows "matrix_step rt resultMatrix item =
           Inr (resultMatrix[i := (resultMatrix ! i)[j := element]])"
proof -
  from p have o: "opt_member item ''originIndex'' = JNum (of_nat i)"
    and d: "opt_member item ''destinationIndex'' = JNum (of_nat j)"
    by (simp_all add: pair_of_def index_pair_def)
  have m: "\<And>k. member item k = Inr (opt_member item k)"
    by (rule member_opt_member [OF pair_of_not_nullish [OF p]])
  show ?thesis
    using i j
    by (simp add: matrix_step_def m o d andThen_simps array_index_of_nat e array_store_def)
qed


lemma index_pair_eq_iff:
  "index_pair i j = index_pair i' j' \<longleftrightarrow> i = i' \<and> j = j'"
  by (simp add: index_pair_def)

lemma in_all_pairs_iff:
  "p \<in> all_pairs n m \<longleftrightarrow> (\<exists>i<n. \<exists>j<m. p = index_pair i j)"
  by (fastforce simp: all_pairs_def)

lemma forEach_fills:
  assumes "length M0 = n" and "\<forall>i<n. length (M0 ! i) = m"
    and "n \<le> 4294967295" and "m \<le> 4294967295"
    and "set (map pair_of items) \<subseteq> all_pairs n m"
    and "distinct (map pair_of items)"
    and "\<forall>item \<in> set items. has_duration_string item"
  shows "\<exists>M. forEach (matrix_step rt) M0 items = Inr M \<and> length M = n
           \<and> (\<forall>i<n. length (M ! i) = m)
           \<and> (\<forall>i<n. \<forall>j<m.
                 (case find (\<lambda>it. pair_of it = index_pair i j) items of
                    None \<Rightarrow> M ! i ! j = M0 ! i ! j
                  | Some it \<Rightarrow> matrix_element rt it = Inr (M ! i ! j)))"
  using assms
proof (induction items arbitrary: M0)
  case Nil
  then show ?case by simp
next
  case (Cons x xs)
  from Cons.prems(5) obtain i0 j0 where ij: "i0 < n" "j0 < m" "pair_of x = index_pair i0 j0"
    by (auto simp: in_all_pairs_iff)
  from Cons.prems(7) obtain el where el: "matrix_element rt x = Inr el"
    using matrix_element_builds [of x rt] by auto
  define M1 where "M1 = M0[i0 := (M0 ! i0)[j0 := el]]"
  have step: "matrix_step rt M0 x = Inr M1"
    unfolding M1_def
    using ij Cons.prems(1-4) el
    by (intro matrix_step_in_range) auto
  have len1: "length M1 = n"
    using Cons.prems(1) by (simp add: M1_def)
  have rows1: "\<forall>i<n. length (M1 ! i) = m"
    using Cons.prems(1,2) ij by (auto simp: M1_def nth_list_update)
  have sub: "set (map pair_of xs) \<subseteq> all_pairs n m"
    using Cons.prems(5) by auto
  have dist: "distinct (map pair_of xs)"
    using Cons.prems(6) by simp
  have build: "\<forall>item \<in> set xs. has_duration_string item"
    using Cons.prems(7) by simp
  from Cons.IH [OF len1 rows1 Cons.prems(3) Cons.prems(4) sub dist build]
  obtain M where M: "forEach (matrix_step rt) M1 xs = Inr M" "length M = n"
    "\<forall>i<n. length (M ! i) = m"
    "\<forall>i<n. \<forall>j<m.
        (case find (\<lambda>it. pair_of it = index_pair i j) xs of
           None \<Rightarrow> M ! i ! j = M1 ! i ! j
         | Some it \<Rightarrow> matrix_element rt it = Inr (M ! i ! j))"
    by blast
  have run: "forEach (matrix_step rt) M0 (x # xs) = Inr M"
    by (simp add: step M(1) andThen_simps)
  have cells: "\<forall>i<n. \<forall>j<m.
        (case find (\<lambda>it. pair_of it = index_pair i j) (x # xs) of
           None \<Rightarrow> M ! i ! j = M0 ! i ! j
         | Some it \<Rightarrow> matrix_element rt it = Inr (M ! i ! j))"
  proof (intro allI impI)
    fix i j assume lt: "i < n" "j < m"
    from M(4) lt have IH: "(case find (\<lambda>it. pair_of it = index_pair i j) xs of
           None \<Rightarrow> M ! i ! j = M1 ! i ! j
         | Some it \<Rightarrow> matrix_element rt it = Inr (M ! i ! j))"
      by blast
    show "(case find (\<lambda>it. pair_of it = index_pair i j) (x # xs) of
           None \<Rightarrow> M ! i ! j = M0 ! i ! j
         | Some it \<Rightarrow> matrix_element rt it = Inr (M ! i ! j))"
    proof (cases "i = i0 \<and> j = j0")
      case True
      have "pair_of x \<notin> set (map pair_of xs)"
        using Cons.prems(6) by simp
      then have none: "find (\<lambda>it. pair_of it = index_pair i j) xs = None"
        using True ij(3) by (force simp: find_None_iff image_iff)
      have "M1 ! i ! j = el"
        using True ij Cons.prems(1,2) by (simp add: M1_def)
      with IH none have "M ! i ! j = el" by simp
      with True ij(3) el show ?thesis by simp
    next
      case False
      then have ne: "pair_of x \<noteq> index_pair i j"
        using ij(3) by (auto simp: index_pair_eq_iff)
      have same: "M1 ! i ! j = M0 ! i ! j"
        using False lt ij Cons.prems(1,2) by (cases "i = i0") (auto simp: M1_def nth_list_update)
      from IH ne same show ?thesis
        by (simp split: option.splits)
    qed
  qed
  from run M(2,3) cells show ?case by blast
qed

text \<open>
  Let the upstream list carry every index pair \<open>(i, j)\<close> with \<open>i < n\<close> and \<open>j < m\<close> exactly
  once and nothing else, for \<open>n\<close> origins and \<open>m\<close> destinations (no more than an array can
  hold), and let every item have a duration string where its element needs one. Then the
  reassembly succeeds: no read of \<^verbatim>\<open>resultMatrix[originIdx]\<close> misses, no row is extended.
  The matrix has \<open>n\<close> rows of \<open>m\<close> elements, and the element in row \<open>i\<close>, column \<open>j\<close> is the
  one built from the only item tagged \<open>(i, j)\<close>.
\<close>

lemma reassemble_matrix:
  assumes "n \<le> 4294967295" and "m \<le> 4294967295"
    and "distinct (map pair_of items)" and "set (map pair_of items) = all_pairs n m"
    and "\<forall>item \<in> set items. has_duration_string item"
  shows "\<exists>rows. reassemble rt n m items = Inr rows \<and> length rows = n
           \<and> (\<forall>i<n. length (rows ! i) = m
                \<and> (\<forall>j<m. (\<exists>!k. k < length items \<and> pair_of (items ! k) = index_pair i j)
                      \<and> (\<forall>k<length items. pair_of (items ! k) = index_pair i j \<longrightarrow>
                            matrix_element rt (items ! k) = Inr (rows ! i ! j))))"
proof -
  have sub: "set (map pair_of items) \<subseteq> all_pairs n m"
    using assms(4) by simp
  have len0: "length (replicate n (replicate m JNull)) = n"
    by simp
  have rows0: "\<forall>i<n. length (replicate n (replicate m JNull) ! i) = m"
    by simp
  from forEach_fills [of "replicate n (replicate m JNull)" n m items rt,
      OF len0 rows0 assms(1,2) sub assms(3,5)]
  obtain M where M: "forEach (matrix_step rt) (replicate n (replicate m JNull)) items = Inr M"
    "length M = n" "\<forall>i<n. length (M ! i) = m"
    "\<forall>i<n. \<forall>j<m.
        (case find (\<lambda>it. pair_of it = index_pair i j) items of
           None \<Rightarrow> M ! i ! j = replicate n (replicate m JNull) ! i ! j
         | Some it \<Rightarrow> matrix_element rt it = Inr (M ! i ! j))"
    by blast
  have cell: "(\<exists>!k. k < length items \<and> pair_of (items ! k) = index_pair i j)
      \<and> (\<forall>k<length items. pair_of (items ! k) = index_pair i j \<longrightarrow>
            matrix_element rt (items ! k) = Inr (M ! i ! j))"
    if lt: "i < n" "j < m" for i j
  proof -
    from lt have "index_pair i j \<in> set (map pair_of items)"
      unfolding assms(4) by (auto simp: in_all_pairs_iff)
    then obtain k where k: "k < length items" "pair_of (items ! k) = index_pair i j"
      by (auto simp: in_set_conv_nth)
    have uniq: "k' = k" if "k' < length items" "pair_of (items ! k') = index_pair i j" for k'
    proof -
      from that k have "map pair_of items ! k' = map pair_of items ! k" by simp
      moreover have "k' < length (map pair_of items)" "k < length (map pair_of items)"
        using that(1) k(1) by simp_all
      ultimately show ?thesis
        using assms(3) nth_eq_iff_index_eq by blast
    qed
    have "items ! k \<in> set items"
      using k(1) by simp
    with k(2) have "find (\<lambda>it. pair_of it = index_pair i j) items \<noteq> None"
      unfolding find_None_iff by blast
    then obtain it where it: "find (\<lambda>it. pair_of it = index_pair i j) items = Some it"
      by auto
    then obtain k' where k': "k' < length items" "pair_of (items ! k') = index_pair i j"
      "it = items ! k'"
      by (auto simp: find_Some_iff)
    with uniq have "it = items ! k" by auto
    moreover from M(4) lt have "case find (\<lambda>it. pair_of it = index_pair i j) items of
           None \<Rightarrow> M ! i ! j = replicate n (replicate m JNull) ! i ! j
         | Some it \<Rightarrow> matrix_element rt it = Inr (M ! i ! j)"
      by blast
    with it have "matrix_element rt it = Inr (M ! i ! j)"
      by simp
    ultimately have el: "matrix_element rt (items ! k) = Inr (M ! i ! j)" by simp
    have one: "\<exists>!k. k < length items \<and> pair_of (items ! k) = index_pair i j"
    proof (rule ex1I [of _ k])
      show "k < length items \<and> pair_of (items ! k) = index_pair i j"
        using k by simp
    next
      fix k' assume "k' < length items \<and> pair_of (items ! k') = index_pair i j"
      then show "k' = k" using uniq by blast
    qed
    have every: "\<forall>k<length items. pair_of (items ! k) = index_pair i j \<longrightarrow>
            matrix_element rt (items ! k) = Inr (M ! i ! j)"
    proof (intro allI impI)
      fix k' assume "k' < length items" "pair_of (items ! k') = index_pair i j"
      then have "k' = k" by (rule uniq)
      with el show "matrix_element rt (items ! k') = Inr (M ! i ! j)" by simp
    qed
    from one every show ?thesis by (rule conjI)
  qed
  from M(1) have "reassemble rt n m items = Inr M"
    by (simp add: reassemble_def)
  moreover have "\<forall>i<n. length (M ! i) = m
                \<and> (\<forall>j<m. (\<exists>!k. k < length items \<and> pair_of (items ! k) = index_pair i j)
                      \<and> (\<forall>k<length items. pair_of (items ! k) = index_pair i j \<longrightarrow>
                            matrix_element rt (items ! k) = Inr (M ! i ! j)))"
  proof (intro allI impI conjI)
    fix i assume "i < n"
    with M(3) show "length (M ! i) = m" by blast
  next
    fix i j assume "i < n" "j < m"
    then show "\<exists>!k. k < length items \<and> pair_of (items ! k) = index_pair i j"
      by (rule cell [THEN conjunct1])
  next
    fix i j k assume "i < n" "j < m"
    then have "\<forall>k<length items. pair_of (items ! k) = index_pair i j \<longrightarrow>
            matrix_element rt (items ! k) = Inr (M ! i ! j)"
      by (rule cell [THEN conjunct2])
    moreover assume "k < length items" "pair_of (items ! k) = index_pair i j"
    ultimately show "matrix_element rt (items ! k) = Inr (M ! i ! j)" by blast
  qed
  ultimately show ?thesis
    using M(2) by (intro exI [of _ M] conjI)
qed

lemma sample_pairs:
  "map pair_of sample_items = [index_pair 1 0, index_pair 0 0]"
  by (simp add: sample_items_def pair_of_def index_pair_def opt_member_def object_get_def)

lemma all_pairs_2_1: "all_pairs 2 1 = {index_pair 0 0, index_pair 1 0}"
  by (simp add: all_pairs_def upt_rec)

lemma parseInt_samples: "parseInt ''120'' = JNum 120" "parseInt ''95'' = JNum 95"
  by (simp_all add: parseInt_def is_space_def space_chars_def radix_digit_def hex_value_def
      hex_chars_def digits_value_def Let_def)

lemma sample_reassembly: "reassemble sample_runtime 2 1 sample_items = Inr sample_rows"
  by (simp add: reassemble_def sample_items_def sample_rows_def matrix_step_def member_def
      opt_member_def object_get_def object_prototype_keys_def andThen_simps array_index_def
      is_integral_def matrix_element_def Let_def truthy_def js_replace_def js_or_def
      ToString_def parseInt_samples array_store_def sample_runtime_def numeral_2_eq_2)

lemma reassemble_matrix_sample:
  "distinct (map pair_of sample_items)
   \<and> set (map pair_of sample_items) = all_pairs 2 1
   \<and> list_all has_duration_string sample_items
   \<and> reassemble sample_runtime 2 1 sample_items = Inr sample_rows
   \<and> (\<exists>rows. reassemble sample_runtime 2 1 sample_items = Inr rows \<and> length rows = 2
           \<and> (\<forall>i<2. length (rows ! i) = 1
                \<and> (\<forall>j<1. (\<exists>!k. k < length sample_items
                               \<and> pair_of (sample_items ! k) = index_pair i j)
                      \<and> (\<forall>k<length sample_items. pair_of (sample_items ! k) = index_pair i j \<longrightarrow>
                            matrix_element sample_runtime (sample_items ! k) = Inr (rows ! i ! j)))))"
proof -
  have d: "distinct (map pair_of sample_items)"
    by (simp add: sample_pairs index_pair_eq_iff)
  have s: "set (map pair_of sample_items) = all_pairs 2 1"
    unfolding sample_pairs all_pairs_2_1 by auto
  have b: "\<forall>item \<in> set sample_items. has_duration_string item"
    by (simp add: sample_items_def has_duration_string_def opt_member_def object_get_def)
  have l: "list_all has_duration_string sample_items"
    using b by (simp add: list_all_iff)
  have n: "(2::nat) \<le> 4294967295" and m: "(1::nat) \<le> 4294967295"
    by simp_all
  from reassemble_matrix [OF n m d s b, of sample_runtime] d s l sample_reassembly
  show ?thesis by blast
qed

lemma all_pairs_1_1: "all_pairs 1 1 = {index_pair 0 0}"
  by (simp add: all_pairs_def)

text \<open>
  C5. A list that carries every index pair exactly once does not by itself make the
  reassembly succeed. For one origin and one destination, the list of the single item
  \<^verbatim>\<open>{originIndex: 0, destinationIndex: 0, distanceMeters: 1500}\<close> carries the pair \<open>(0, 0)\<close>
  exactly once; the loop throws while it builds the element, at the
  \<^verbatim>\<open>item.duration.replace\<close> that line 864 guards with the distance, so no matrix is
  returned and no element is filled: the call ends in the error result of the dispatcher.
\<close>

theorem complete_list_fails_without_duration:
  "distinct (map pair_of [item_without_duration])
   \<and> set (map pair_of [item_without_duration]) = all_pairs 1 1
   \<and> reassemble rt 1 1 [item_without_duration] = Inl (read_error JUndefined ''replace'')
   \<and> callTool (maps_transcoders rt (ok_response (JArr [item_without_duration])))
        \<lparr>name = ''maps_distance_matrix'',
         arguments = JObj [(''origins'', JArr [JStr ''Berlin'']),
                           (''destinations'', JArr [JStr ''Paris''])]\<rparr>
     = \<lparr>content = [\<lparr>ctype = ''text'', ctext = Literal
           ''Error: Cannot read properties of undefined (reading 'replace')''\<rparr>],
        isError = True\<rparr>"
proof -
  have p: "map pair_of [item_without_duration] = [index_pair 0 0]"
    by (simp add: item_without_duration_def pair_of_def index_pair_def opt_member_def object_get_def)
  have r: "reassemble rt 1 1 [item_without_duration] = Inl (read_error JUndefined ''replace'')"
    by (simp add: item_without_duration_def matrix_element_def opt_member_def object_get_def
      object_prototype_keys_def truthy_def js_replace_def andThen_simps
      reassemble_def matrix_step_def member_def array_index_def is_integral_def Let_def)
  have w: "route_waypoint rt what (JStr ''Berlin'') = Inr (JObj [(''address'', JStr ''Berlin'')])"
     "route_waypoint rt what (JStr ''Paris'') = Inr (JObj [(''address'', JStr ''Paris'')])"
    for what
    using not_coordinate_samples by (simp_all only: route_waypoint_def ToString_def jsval.case if_False)
  have q: "distanceMatrixRequest rt (JArr [JStr ''Berlin'']) (JArr [JStr ''Paris'']) JUndefined
     = Inr (JObj (with_routing_preference (googleTravelMode rt JUndefined)
         [(''origins'', JArr [JObj [(''waypoint'', JObj [(''address'', JStr ''Berlin'')])]]),
          (''destinations'', JArr [JObj [(''waypoint'', JObj [(''address'', JStr ''Paris'')])]]),
          (''travelMode'', googleTravelMode rt JUndefined)]))"
    by (simp add: distanceMatrixRequest_def js_map_def matrix_waypoint_def w andThen_simps)
  have e: "\<not> truthy (opt_member item_without_duration ''error'')"
    by (simp add: item_without_duration_def opt_member_def object_get_def
        object_prototype_keys_def truthy_def)
  from r have r': "reassemble rt (Suc 0) (Suc 0) [item_without_duration]
      = Inl (read_error JUndefined ''replace'')"
    by simp
  have h: "handleDistanceMatrix rt (JArr [JStr ''Berlin'']) (JArr [JStr ''Paris'']) JUndefined
       (ok_response (JArr [item_without_duration])) = Inl (read_error JUndefined ''replace'')"
    unfolding handleDistanceMatrix_def q andThen_simps
    by (simp add: ok_response_def andThen_simps first_element_def js_length_def r' e)
  have s: "switch_on_name (maps_transcoders rt (ok_response (JArr [item_without_duration])))
        \<lparr>name = ''maps_distance_matrix'',
         arguments = JObj [(''origins'', JArr [JStr ''Berlin'']),
                           (''destinations'', JArr [JStr ''Paris''])]\<rparr>
      = Inl (read_error JUndefined ''replace'')"
    by (simp add: switch_on_name_def maps_transcoders_def destructure_def nullish_def
        opt_member_def object_get_def object_prototype_keys_def andThen_simps h)
  have c: "callTool (maps_transcoders rt (ok_response (JArr [item_without_duration])))
        \<lparr>name = ''maps_distance_matrix'',
         arguments = JObj [(''origins'', JArr [JStr ''Berlin'']),
                           (''destinations'', JArr [JStr ''Paris''])]\<rparr>
     = \<lparr>content = [\<lparr>ctype = ''text'', ctext = Literal
           ''Error: Cannot read properties of undefined (reading 'replace')''\<rparr>],
        isError = True\<rparr>"
    unfolding callTool_def s by (simp add: failure_def read_error_def TypeError_def)
  have d: "distinct (map pair_of [item_without_duration])" by simp
  have a: "set (map pair_of [item_without_duration]) = all_pairs 1 1"
    unfolding p all_pairs_1_1 by simp
  from d a r c show ?thesis by (intro conjI)
qed

section \<open>Defaults for absent fields\<close>













lemma is_json_element: "is_json (JArr xs) \<Longrightarrow> x \<in> set xs \<Longrightarrow> is_json x"
  by (simp add: list_all_iff)





































subsection \<open>The distance matrix\<close>







subsection \<open>The tools that copy\<close>











subsection \<open>The claim, tool by tool\<close>

















section \<open>The matcher decides the language\<close>

lemma conc_iff: "w \<in> conc A B \<longleftrightarrow> (\<exists>u v. w = u @ v \<and> u \<in> A \<and> v \<in> B)"
  by (auto simp: conc_def)

lemma Cons_in_conc_iff:
  "c # w \<in> conc A B \<longleftrightarrow>
     ([] \<in> A \<and> c # w \<in> B) \<or> (\<exists>u v. w = u @ v \<and> c # u \<in> A \<and> v \<in> B)"
proof
  assume "c # w \<in> conc A B"
  then obtain u v where uv: "c # w = u @ v" "u \<in> A" "v \<in> B"
    by (auto simp: conc_iff)
  show "([] \<in> A \<and> c # w \<in> B) \<or> (\<exists>u v. w = u @ v \<and> c # u \<in> A \<and> v \<in> B)"
  proof (cases u)
    case Nil
    with uv show ?thesis by simp
  next
    case (Cons d u')
    with uv have "w = u' @ v" "c # u' \<in> A" by simp_all
    with uv(3) show ?thesis by blast
  qed
next
  assume "([] \<in> A \<and> c # w \<in> B) \<or> (\<exists>u v. w = u @ v \<and> c # u \<in> A \<and> v \<in> B)"
  then show "c # w \<in> conc A B"
  proof
    assume "[] \<in> A \<and> c # w \<in> B"
    then have "[] @ (c # w) \<in> conc A B"
      unfolding conc_iff by blast
    then show ?thesis by simp
  next
    assume "\<exists>u v. w = u @ v \<and> c # u \<in> A \<and> v \<in> B"
    then obtain u v where uv: "w = u @ v" "c # u \<in> A" "v \<in> B" by blast
    then have "(c # u) @ v \<in> conc A B"
      unfolding conc_iff by blast
    with uv(1) show ?thesis by simp
  qed
qed

lemma Cons_in_star_iff:
  "c # w \<in> star A \<longleftrightarrow> (\<exists>u v. w = u @ v \<and> c # u \<in> A \<and> v \<in> star A)"
proof
  assume "c # w \<in> star A"
  then show "\<exists>u v. w = u @ v \<and> c # u \<in> A \<and> v \<in> star A"
  proof (induction "c # w" rule: star.induct)
    case (star_more u v)
    show ?case
    proof (cases u)
      case Nil
      with star_more show ?thesis by simp
    next
      case (Cons d u')
      with star_more(1,2,4) show ?thesis by auto
    qed
  qed
next
  assume "\<exists>u v. w = u @ v \<and> c # u \<in> A \<and> v \<in> star A"
  then obtain u v where uv: "w = u @ v" "c # u \<in> A" "v \<in> star A" by blast
  from star_more [OF uv(2,3)] uv(1) show "c # w \<in> star A" by simp
qed

lemma nullable_iff: "nullable r \<longleftrightarrow> [] \<in> lang r"
  by (induction r) (auto simp: conc_iff intro: star_empty)

lemma lang_deriv: "w \<in> lang (deriv c r) \<longleftrightarrow> c # w \<in> lang r"
proof (induction r arbitrary: w)
  case Never
  show ?case by simp
next
  case Empty
  show ?case by simp
next
  case (Cls cs)
  show ?case by auto
next
  case (Seq r s)
  have L: "c # w \<in> conc (lang r) (lang s) \<longleftrightarrow>
      ([] \<in> lang r \<and> c # w \<in> lang s)
      \<or> (\<exists>u v. w = u @ v \<and> c # u \<in> lang r \<and> v \<in> lang s)"
    by (rule Cons_in_conc_iff)
  have R: "w \<in> conc (lang (deriv c r)) (lang s) \<longleftrightarrow>
      (\<exists>u v. w = u @ v \<and> c # u \<in> lang r \<and> v \<in> lang s)"
    unfolding conc_iff Seq.IH(1) ..
  show ?case
  proof (cases "nullable r")
    case True
    then have "[] \<in> lang r" by (simp add: nullable_iff)
    with True L R Seq.IH(2) [of w] show ?thesis by (simp add: disj_commute)
  next
    case False
    then have "[] \<notin> lang r" by (simp add: nullable_iff)
    with False L R show ?thesis by simp
  qed
next
  case (Alt r s)
  then show ?case by simp
next
  case (Opt r)
  then show ?case by simp
next
  case (Star r)
  have "w \<in> conc (lang (deriv c r)) (star (lang r)) \<longleftrightarrow>
      (\<exists>u v. w = u @ v \<and> c # u \<in> lang r \<and> v \<in> star (lang r))"
    unfolding conc_iff Star.IH ..
  then show ?case by (simp add: Cons_in_star_iff)
next
  case (Plus r)
  have a: "w \<in> conc (lang (deriv c r)) (star (lang r)) \<longleftrightarrow>
      (\<exists>u v. w = u @ v \<and> c # u \<in> lang r \<and> v \<in> star (lang r))"
    unfolding conc_iff Plus.IH ..
  have b: "c # w \<in> conc (lang r) (star (lang r)) \<longleftrightarrow>
      ([] \<in> lang r \<and> c # w \<in> star (lang r))
      \<or> (\<exists>u v. w = u @ v \<and> c # u \<in> lang r \<and> v \<in> star (lang r))"
    by (rule Cons_in_conc_iff)
  have "c # w \<in> conc (lang r) (star (lang r)) \<longleftrightarrow>
      (\<exists>u v. w = u @ v \<and> c # u \<in> lang r \<and> v \<in> star (lang r))"
    unfolding b Cons_in_star_iff [of c w "lang r"] by blast
  with a show ?case by simp
qed

lemma regex_test_iff_lang: "regex_test r w \<longleftrightarrow> w \<in> lang r"
  by (induction w arbitrary: r) (simp_all add: nullable_iff lang_deriv)

end
